theory Spec2Isabelle
  imports Main "HOL-Library.Multiset"
begin

section \<open>Tables shared by the R and the pandas side\<close>

text \<open>
  The notebook \<^verbatim>\<open>rpy2_forecasting_with_fable.py\<close> moves one table through three
  representations: an R tsibble, an R data frame and a pandas data frame. A cell is one
  value of a column. The temporal column \<^verbatim>\<open>Month\<close> has a different logical type in each
  representation: tsibble's \<^verbatim>\<open>yearmonth\<close> (counted here in months since January 1970),
  R's \<^verbatim>\<open>POSIXct\<close> (seconds since the epoch, UTC) and pandas' \<^verbatim>\<open>datetime64[ns]\<close>
  (nanoseconds since the epoch). Numbers are of a type \<open>'a\<close> that no conversion inspects;
  forecast distributions are of a type \<open>'d\<close> that only the forecasting engine produces.
  An R table is a plain data frame, a tsibble with its key columns and its index, or a
  fable, which is a tsibble that also names its distribution column.
\<close>

datatype ('a, 'd) cell =
    NA
  | Chr string
  | Dbl 'a
  | YearMonth int
  | POSIXct int
  | Datetime64 int
  | Dist 'd
  | Hilo 'a 'a

datatype repr =
    Tsibble "string list" string
  | Fable "string list" string string
  | RDataFrame
  | Pandas

type_synonym ('a, 'd) row = "(string \<times> ('a, 'd) cell) list"

record ('a, 'd) table =
  kind :: repr
  cols :: "string list"
  rows :: "('a, 'd) row list"

datatype error =
    AttributeError string
  | ObjectNotFound string
  | NotConvertible string
  | IndexingError
  | InvalidTsibble string
  | EngineError string

text \<open>A table is well formed when every row carries exactly the columns of the header.\<close>

definition wf_table :: "('a, 'd) table \<Rightarrow> bool" where
  "wf_table t = (distinct (cols t) \<and> (\<forall>r \<in> set (rows t). map fst r = cols t))"

text \<open>Sequencing of calls that may raise: the first error ends the computation.\<close>

definition and_then :: "error + 'x \<Rightarrow> ('x \<Rightarrow> error + 'y) \<Rightarrow> error + 'y" where
  "and_then m f = (case m of Inl e \<Rightarrow> Inl e | Inr x \<Rightarrow> f x)"

fun traverse :: "('x \<Rightarrow> error + 'y) \<Rightarrow> 'x list \<Rightarrow> error + 'y list" where
  "traverse f [] = Inr []"
| "traverse f (x # xs) =
     (case f x of
        Inl e \<Rightarrow> Inl e
      | Inr y \<Rightarrow> (case traverse f xs of Inl e \<Rightarrow> Inl e | Inr ys \<Rightarrow> Inr (y # ys)))"

section \<open>The pandas filter (source lines 83 to 85)\<close>

text \<open>
  \<^verbatim>\<open>aus_retail_pdf.State\<close> reads a column and raises \<^verbatim>\<open>AttributeError\<close> when the frame
  has none of that name.
\<close>

definition field :: "string \<Rightarrow> ('a, 'd) row \<Rightarrow> error + ('a, 'd) cell" where
  "field n r = (case map_of r n of None \<Rightarrow> Inl (AttributeError n) | Some c \<Rightarrow> Inr c)"

definition get_column :: "string \<Rightarrow> ('a, 'd) table \<Rightarrow> error + ('a, 'd) cell list" where
  "get_column n t =
     (if n \<in> set (cols t) then traverse (field n) (rows t) else Inl (AttributeError n))"

text \<open>
  \<^verbatim>\<open>Series.isin(values)\<close> is true exactly at the cells equal to one of the values; a
  missing value or a cell of another type is equal to no string.
\<close>

fun cell_isin :: "string list \<Rightarrow> ('a, 'd) cell \<Rightarrow> bool" where
  "cell_isin vs (Chr s) = (s \<in> set vs)"
| "cell_isin vs _ = False"

definition isin :: "('a, 'd) cell list \<Rightarrow> string list \<Rightarrow> bool list" where
  "isin cs vs = map (cell_isin vs) cs"

definition mask_and :: "bool list \<Rightarrow> bool list \<Rightarrow> bool list" where
  "mask_and ms ns = map (\<lambda>(a, b). a \<and> b) (zip ms ns)"

text \<open>\<^verbatim>\<open>df[mask]\<close> keeps the rows at which the mask is true, in their order.\<close>

definition boolean_index :: "('a, 'd) table \<Rightarrow> bool list \<Rightarrow> error + ('a, 'd) table" where
  "boolean_index t flags =
     (if length flags = length (rows t)
      then Inr (t\<lparr>rows := map fst (filter snd (zip (rows t) flags))\<rparr>)
      else Inl IndexingError)"

definition filter_states_industries :: "('a, 'd) table \<Rightarrow> error + ('a, 'd) table" where
  "filter_states_industries t =
     and_then (get_column ''State'' t) (\<lambda>states.
     and_then (get_column ''Industry'' t) (\<lambda>industries.
       boolean_index t
         (mask_and (isin states [''New South Wales'', ''Victoria''])
                   (isin industries [''Department stores'']))))"

text \<open>The rows the filter is meant to keep.\<close>

definition selected :: "('a, 'd) row \<Rightarrow> bool" where
  "selected r =
     ((map_of r ''State'' = Some (Chr ''New South Wales'') \<or>
       map_of r ''State'' = Some (Chr ''Victoria'')) \<and>
      map_of r ''Industry'' = Some (Chr ''Department stores''))"

section \<open>Calendar arithmetic\<close>

text \<open>
  The proleptic Gregorian calendar in days since 1 January 1970, by 400-year eras.
  \<open>days_from_civil y m d\<close> is the day number of the date; \<open>civil_from_days\<close> is its
  inverse. A \<^verbatim>\<open>yearmonth\<close> value \<open>m\<close> stands for the month that begins \<open>m\<close> months after
  January 1970.
\<close>

definition days_from_civil :: "int \<Rightarrow> int \<Rightarrow> int \<Rightarrow> int" where
  "days_from_civil y m d =
     (let y' = (if m \<le> 2 then y - 1 else y);
          era = y' div 400;
          yoe = y' - era * 400;
          mp = (if m > 2 then m - 3 else m + 9);
          doy = (153 * mp + 2) div 5 + d - 1;
          doe = yoe * 365 + yoe div 4 - yoe div 100 + doy
      in era * 146097 + doe - 719468)"

definition civil_from_days :: "int \<Rightarrow> int \<times> int \<times> int" where
  "civil_from_days z =
     (let z' = z + 719468;
          era = z' div 146097;
          doe = z' - era * 146097;
          yoe = (doe - doe div 1460 + doe div 36524 - doe div 146096) div 365;
          doy = doe - (365 * yoe + yoe div 4 - yoe div 100);
          mp = (5 * doy + 2) div 153;
          d = doy - (153 * mp + 2) div 5 + 1;
          m = (if mp < 10 then mp + 3 else mp - 9)
      in (yoe + era * 400 + (if m \<le> 2 then 1 else 0), m, d))"

definition month_start_day :: "int \<Rightarrow> int" where
  "month_start_day m = days_from_civil (1970 + m div 12) (m mod 12 + 1) 1"

definition month_of_day :: "int \<Rightarrow> int" where
  "month_of_day z = (case civil_from_days z of (y, mo, d) \<Rightarrow> (y - 1970) * 12 + (mo - 1))"

section \<open>R functions on data frames\<close>

text \<open>
  \<^verbatim>\<open>base.as_data_frame\<close> (lines 70 and 127) drops the tsibble tags of an R table and
  keeps its columns and rows. It is an R function: a pandas frame is no argument for it.
\<close>

definition as_data_frame :: "('a, 'd) table \<Rightarrow> error + ('a, 'd) table" where
  "as_data_frame t =
     (if kind t = Pandas then Inl (NotConvertible ''as.data.frame'')
      else Inr (t\<lparr>kind := RDataFrame\<rparr>))"

text \<open>
  \<^verbatim>\<open>DataFrame(df).mutate(Month=rl("f(Month)"))\<close> (lines 74, 97 and 129) replaces the
  column \<^verbatim>\<open>Month\<close> by \<open>f\<close> of it, cell by cell, and leaves the other columns alone. R
  cannot evaluate the expression when the frame has no such column.
\<close>

definition set_field :: "string \<Rightarrow> ('a, 'd) cell \<Rightarrow> ('a, 'd) row \<Rightarrow> ('a, 'd) row" where
  "set_field n v r = map (\<lambda>(k, c). if k = n then (k, v) else (k, c)) r"

definition mutate_row ::
  "string \<Rightarrow> (('a, 'd) cell \<Rightarrow> error + ('a, 'd) cell) \<Rightarrow> ('a, 'd) row \<Rightarrow> error + ('a, 'd) row" where
  "mutate_row n f r =
     (case map_of r n of
        None \<Rightarrow> Inl (ObjectNotFound n)
      | Some c \<Rightarrow> and_then (f c) (\<lambda>c'. Inr (set_field n c' r)))"

definition mutate ::
  "string \<Rightarrow> (('a, 'd) cell \<Rightarrow> error + ('a, 'd) cell) \<Rightarrow> ('a, 'd) table \<Rightarrow> error + ('a, 'd) table" where
  "mutate n f t =
     (if kind t = Pandas then Inl (NotConvertible ''mutate'')
      else if n \<notin> set (cols t) then Inl (ObjectNotFound n)
      else and_then (traverse (mutate_row n f) (rows t)) (\<lambda>rs. Inr (t\<lparr>rows := rs\<rparr>)))"

text \<open>
  \<^verbatim>\<open>lubridate::as_datetime\<close> on a \<^verbatim>\<open>yearmonth\<close> is midnight UTC of the first day of the
  month; \<^verbatim>\<open>tsibble::yearmonth\<close> on a \<^verbatim>\<open>POSIXct\<close> is the month the instant falls in. A
  missing value stays missing. Only the temporal types the notebook passes are modelled;
  other cells are reported as not convertible.
\<close>

fun as_datetime :: "('a, 'd) cell \<Rightarrow> error + ('a, 'd) cell" where
  "as_datetime (YearMonth m) = Inr (POSIXct (86400 * month_start_day m))"
| "as_datetime (POSIXct s) = Inr (POSIXct s)"
| "as_datetime NA = Inr NA"
| "as_datetime _ = Inl (NotConvertible ''as_datetime'')"

fun yearmonth :: "('a, 'd) cell \<Rightarrow> error + ('a, 'd) cell" where
  "yearmonth (POSIXct s) = Inr (YearMonth (month_of_day (s div 86400)))"
| "yearmonth (YearMonth m) = Inr (YearMonth m)"
| "yearmonth NA = Inr NA"
| "yearmonth _ = Inl (NotConvertible ''yearmonth'')"

section \<open>The rpy2 converter\<close>

text \<open>
  \<^verbatim>\<open>ro.conversion.rpy2py\<close> under the pandas converter (lines 77-78 and 132-133) takes
  an R data frame, not a tsibble (comment of lines 68-69), and has no pandas type for an
  R date or period (comment of lines 72-73): strings and numbers pass unchanged, a
  \<^verbatim>\<open>POSIXct\<close> becomes a \<^verbatim>\<open>datetime64[ns]\<close>. That type counts nanoseconds in 64
  bits, so it holds the instants from 21 September 1677 to 11 April 2262 only. The
  converter goes through Python's \<^verbatim>\<open>datetime\<close>, which has the years 1 to 9999: an
  instant outside those years raises, and one inside them that \<^verbatim>\<open>datetime64[ns]\<close>
  cannot hold becomes the missing value \<^verbatim>\<open>NaT\<close>. \<^verbatim>\<open>py2rpy\<close> (lines 91-92) is the
  way back.
\<close>

definition int64_range :: "int \<Rightarrow> bool" where
  "int64_range n = (- 9223372036854775807 \<le> n \<and> n \<le> 9223372036854775807)"

definition datetime64_range :: "int \<Rightarrow> bool" where
  "datetime64_range s = int64_range (s * 1000000000)"

definition datetime_range :: "int \<Rightarrow> bool" where
  "datetime_range s = (- 62135596800 \<le> s \<and> s \<le> 253402300799)"

fun rpy2py_cell :: "('a, 'd) cell \<Rightarrow> error + ('a, 'd) cell" where
  "rpy2py_cell NA = Inr NA"
| "rpy2py_cell (Chr s) = Inr (Chr s)"
| "rpy2py_cell (Dbl x) = Inr (Dbl x)"
| "rpy2py_cell (POSIXct s) =
     (if datetime64_range s then Inr (Datetime64 (s * 1000000000))
      else if datetime_range s then Inr NA
      else Inl (NotConvertible ''rpy2py''))"
| "rpy2py_cell _ = Inl (NotConvertible ''rpy2py'')"

fun py2rpy_cell :: "('a, 'd) cell \<Rightarrow> error + ('a, 'd) cell" where
  "py2rpy_cell NA = Inr NA"
| "py2rpy_cell (Chr s) = Inr (Chr s)"
| "py2rpy_cell (Dbl x) = Inr (Dbl x)"
| "py2rpy_cell (Datetime64 ns) =
     (if int64_range ns then Inr (POSIXct (ns div 1000000000))
      else Inl (NotConvertible ''py2rpy''))"
| "py2rpy_cell _ = Inl (NotConvertible ''py2rpy'')"

definition convert_field ::
  "(('a, 'd) cell \<Rightarrow> error + ('a, 'd) cell) \<Rightarrow> string \<times> ('a, 'd) cell \<Rightarrow>
   error + string \<times> ('a, 'd) cell" where
  "convert_field f p = and_then (f (snd p)) (\<lambda>c. Inr (fst p, c))"

definition rpy2py :: "('a, 'd) table \<Rightarrow> error + ('a, 'd) table" where
  "rpy2py t =
     (if kind t \<noteq> RDataFrame then Inl (NotConvertible ''rpy2py'')
      else and_then (traverse (traverse (convert_field rpy2py_cell)) (rows t))
             (\<lambda>rs. Inr (t\<lparr>kind := Pandas, rows := rs\<rparr>)))"

definition py2rpy :: "('a, 'd) table \<Rightarrow> error + ('a, 'd) table" where
  "py2rpy t =
     (if kind t \<noteq> Pandas then Inl (NotConvertible ''py2rpy'')
      else and_then (traverse (traverse (convert_field py2rpy_cell)) (rows t))
             (\<lambda>rs. Inr (t\<lparr>kind := RDataFrame, rows := rs\<rparr>)))"

section \<open>Building a tsibble\<close>

text \<open>
  \<^verbatim>\<open>tsibble.as_tsibble(df, index="Month", key=["State", "Industry"])\<close> (lines 96-100)
  needs the named columns, an index of a time class without missing values, and at
  most one row for each key and index; it arranges the rows by the key and then the
  index. Strings are compared byte by byte, missing values come last.
\<close>

fun str_less :: "string \<Rightarrow> string \<Rightarrow> bool" where
  "str_less [] [] = False"
| "str_less [] (b # bs) = True"
| "str_less (a # as) [] = False"
| "str_less (a # as) (b # bs) =
     ((of_char a :: nat) < of_char b \<or> (a = b \<and> str_less as bs))"

fun cell_less :: "('a::linorder, 'd) cell \<Rightarrow> ('a, 'd) cell \<Rightarrow> bool" where
  "cell_less (Chr a) (Chr b) = str_less a b"
| "cell_less (Dbl a) (Dbl b) = (a < b)"
| "cell_less (YearMonth a) (YearMonth b) = (a < b)"
| "cell_less (POSIXct a) (POSIXct b) = (a < b)"
| "cell_less NA b = False"
| "cell_less a NA = True"
| "cell_less a b = False"

fun cells_less :: "('a::linorder, 'd) cell option list \<Rightarrow> ('a, 'd) cell option list \<Rightarrow> bool" where
  "cells_less (Some a # as) (Some b # bs) =
     (cell_less a b \<or> (\<not> cell_less b a \<and> cells_less as bs))"
| "cells_less as bs = False"

definition row_less :: "string list \<Rightarrow> string \<Rightarrow> ('a::linorder, 'd) row \<Rightarrow> ('a, 'd) row \<Rightarrow> bool" where
  "row_less key index r s =
     cells_less (map (map_of r) (key @ [index])) (map (map_of s) (key @ [index]))"

fun insert_row :: "('r \<Rightarrow> 'r \<Rightarrow> bool) \<Rightarrow> 'r \<Rightarrow> 'r list \<Rightarrow> 'r list" where
  "insert_row lt x [] = [x]"
| "insert_row lt x (y # ys) =
     (if lt y x then y # insert_row lt x ys else x # y # ys)"

definition arrange :: "('r \<Rightarrow> 'r \<Rightarrow> bool) \<Rightarrow> 'r list \<Rightarrow> 'r list" where
  "arrange lt rs = foldr (insert_row lt) rs []"


fun index_valid :: "('a, 'd) cell option \<Rightarrow> bool" where
  "index_valid (Some (YearMonth m)) = True"
| "index_valid (Some (POSIXct s)) = True"
| "index_valid (Some (Dbl x)) = True"
| "index_valid c = False"

definition key_index ::
  "string list \<Rightarrow> string \<Rightarrow> ('a, 'd) row \<Rightarrow> ('a, 'd) cell option list \<times> ('a, 'd) cell option" where
  "key_index key index r = (map (map_of r) key, map_of r index)"

definition as_tsibble ::
  "('a::linorder, 'd) table \<Rightarrow> string \<Rightarrow> string list \<Rightarrow> error + ('a, 'd) table" where
  "as_tsibble t index key =
     (if kind t = Pandas then Inl (NotConvertible ''as_tsibble'')
      else if \<not> set (index # key) \<subseteq> set (cols t) then Inl (ObjectNotFound index)
      else if \<not> list_all (\<lambda>r. index_valid (map_of r index)) (rows t)
        then Inl (InvalidTsibble ''index'')
      else if \<not> distinct (map (key_index key index) (rows t))
        then Inl (InvalidTsibble ''duplicated key and index'')
      else Inr (t\<lparr>kind := Tsibble key index,
                  rows := arrange (row_less key index) (rows t)\<rparr>))"

section \<open>The two conversions of the notebook\<close>

text \<open>Lines 70 to 78: tsibble, R data frame, \<^verbatim>\<open>Month\<close> as datetime, pandas frame.\<close>

definition to_pandas :: "('a, 'd) table \<Rightarrow> error + ('a, 'd) table" where
  "to_pandas ts =
     and_then (as_data_frame ts) (\<lambda>aus_retail_r_df.
     and_then (mutate ''Month'' as_datetime aus_retail_r_df) rpy2py)"

text \<open>Lines 91 to 100: pandas frame, R data frame, \<^verbatim>\<open>Month\<close> as yearmonth, tsibble.\<close>

definition to_tsibble :: "('a::linorder, 'd) table \<Rightarrow> error + ('a, 'd) table" where
  "to_tsibble pdf =
     and_then (py2rpy pdf) (\<lambda>rdf.
     and_then (mutate ''Month'' yearmonth rdf) (\<lambda>df.
       as_tsibble df ''Month'' [''State'', ''Industry'']))"

section \<open>Tables of the shape of the retail data\<close>

text \<open>
  The dataset has one temporal column, \<^verbatim>\<open>Month\<close>; its other columns hold strings and
  numbers. \<open>retail_tsibble\<close> describes such a table when it is a tsibble keyed by State
  and Industry with the monthly index: the key and the month identify a row.
\<close>

fun plain :: "('a, 'd) cell \<Rightarrow> bool" where
  "plain NA = True"
| "plain (Chr s) = True"
| "plain (Dbl x) = True"
| "plain c = False"

fun is_yearmonth :: "('a, 'd) cell \<Rightarrow> bool" where
  "is_yearmonth (YearMonth m) = True"
| "is_yearmonth c = False"

definition retail_like_row :: "('a, 'd) row \<Rightarrow> bool" where
  "retail_like_row r =
     list_all (\<lambda>(n, c). if n = ''Month'' then is_yearmonth c else plain c) r"

definition retail_tsibble :: "('a, 'd) table \<Rightarrow> bool" where
  "retail_tsibble ts =
     (kind ts = Tsibble [''State'', ''Industry''] ''Month'' \<and>
      wf_table ts \<and>
      set [''State'', ''Industry'', ''Month''] \<subseteq> set (cols ts) \<and>
      list_all retail_like_row (rows ts) \<and>
      distinct (map (key_index [''State'', ''Industry''] ''Month'') (rows ts)))"

text \<open>
  The value a conversion gives where it succeeds, and the row in which the column \<open>n\<close>
  has been replaced cell by cell.
\<close>

definition value_of ::
  "(('a, 'd) cell \<Rightarrow> error + ('a, 'd) cell) \<Rightarrow> ('a, 'd) cell \<Rightarrow> ('a, 'd) cell" where
  "value_of f c = (case f c of Inl e \<Rightarrow> c | Inr c' \<Rightarrow> c')"

definition map_column ::
  "string \<Rightarrow> (('a, 'd) cell \<Rightarrow> ('a, 'd) cell) \<Rightarrow> ('a, 'd) row \<Rightarrow> ('a, 'd) row" where
  "map_column n g r = map (\<lambda>(k, c). if k = n then (k, g c) else (k, c)) r"

text \<open>The rows after each step of the two conversions, in closed form.\<close>

definition month_datetime_row :: "('a, 'd) row \<Rightarrow> ('a, 'd) row" where
  "month_datetime_row r = map_column ''Month'' (value_of as_datetime) r"

definition pandas_row :: "('a, 'd) row \<Rightarrow> ('a, 'd) row" where
  "pandas_row r = map (\<lambda>p. (fst p, value_of rpy2py_cell (snd p))) r"

definition r_row :: "('a, 'd) row \<Rightarrow> ('a, 'd) row" where
  "r_row r = map (\<lambda>p. (fst p, value_of py2rpy_cell (snd p))) r"

definition month_period_row :: "('a, 'd) row \<Rightarrow> ('a, 'd) row" where
  "month_period_row r = map_column ''Month'' (value_of yearmonth) r"

definition column_shape ::
  "(('a, 'd) cell \<Rightarrow> bool) \<Rightarrow> ('a, 'd) row \<Rightarrow> bool" where
  "column_shape P r = list_all (\<lambda>(n, c). if n = ''Month'' then P c else plain c) r"

fun is_posixct :: "('a, 'd) cell \<Rightarrow> bool" where
  "is_posixct (POSIXct s) = True"
| "is_posixct c = False"


text \<open>
  Months, instants and timestamps that \<^verbatim>\<open>datetime64[ns]\<close> can hold. The months from
  October 1677 to April 2262 are the months \<open>-3507\<close> to \<open>3507\<close>.
\<close>

fun month_in_range :: "('a, 'd) cell \<Rightarrow> bool" where
  "month_in_range (YearMonth m) = datetime64_range (86400 * month_start_day m)"
| "month_in_range c = False"

fun posixct_in_range :: "('a, 'd) cell \<Rightarrow> bool" where
  "posixct_in_range (POSIXct s) = datetime64_range s"
| "posixct_in_range c = False"

fun datetime64_ok :: "('a, 'd) cell \<Rightarrow> bool" where
  "datetime64_ok (Datetime64 n) = int64_range n"
| "datetime64_ok c = False"

fun month_between :: "int \<Rightarrow> int \<Rightarrow> ('a, 'd) cell \<Rightarrow> bool" where
  "month_between lo hi (YearMonth m) = (lo \<le> m \<and> m \<le> hi)"
| "month_between lo hi c = False"

definition months_between :: "int \<Rightarrow> int \<Rightarrow> ('a, 'd) table \<Rightarrow> bool" where
  "months_between lo hi t =
     list_all (list_all (\<lambda>(n, c). n = ''Month'' \<longrightarrow> month_between lo hi c)) (rows t)"

text \<open>
  Every step acts on a row by one function on the cells of \<^verbatim>\<open>Month\<close> and one on the
  cells of the other columns.
\<close>

definition convert_row ::
  "(('a, 'd) cell \<Rightarrow> ('a, 'd) cell) \<Rightarrow> (('a, 'd) cell \<Rightarrow> ('a, 'd) cell) \<Rightarrow>
   ('a, 'd) row \<Rightarrow> ('a, 'd) row" where
  "convert_row hm hk r = map (\<lambda>(k, c). if k = ''Month'' then (k, hm c) else (k, hk c)) r"









section \<open>Model fitting and forecasting\<close>

text \<open>
  Estimation and prediction happen inside fable and are not part of the notebook. They
  enter as a parameter: \<open>fit\<close> takes the text of a model formula and the rows of one
  series and raises or returns the fitted model, given by its forecast distribution
  for each number of steps ahead; \<open>dist_mean\<close> and \<open>dist_hilo\<close> read the mean and the
  bounds of an interval of a given level off a distribution.
\<close>

record ('a, 'd) engine =
  fit :: "string \<Rightarrow> ('a, 'd) row list \<Rightarrow> error + (nat \<Rightarrow> 'd)"
  dist_mean :: "'d \<Rightarrow> 'a"
  dist_hilo :: "nat \<Rightarrow> 'd \<Rightarrow> 'a \<times> 'a"

text \<open>
  A model specification is written \<^verbatim>\<open>name = FAMILY(formula)\<close>; R's parser skips
  blanks. The response is the variable the formula transforms.
\<close>

definition strip_blanks :: "string \<Rightarrow> string" where
  "strip_blanks s = filter (\<lambda>c. c \<noteq> CHR '' '') s"

definition spec_name :: "string \<Rightarrow> string" where
  "spec_name s = takeWhile (\<lambda>c. c \<noteq> CHR ''='') (strip_blanks s)"

definition spec_formula :: "string \<Rightarrow> string" where
  "spec_formula s = drop 1 (dropWhile (\<lambda>c. c \<noteq> CHR ''='') (strip_blanks s))"

definition spec_response :: "string \<Rightarrow> string" where
  "spec_response s =
     takeWhile (\<lambda>c. c \<noteq> CHR '','' \<and> c \<noteq> CHR '')'')
       (rev (takeWhile (\<lambda>c. c \<noteq> CHR ''('') (rev (spec_formula s))))"


definition python_model_specs :: "string list" where
  "python_model_specs =
     [''ets=ETS(box_cox(Turnover, 0.3))'',
      ''arima = ARIMA(log(Turnover))'',
      ''snaive = SNAIVE(Turnover)'']"

text \<open>
  \<^verbatim>\<open>fabletools.model\<close> (lines 112-117) takes a tsibble and fits every specification to
  every series, a series being the rows of one key. The result, a mable, has one entry
  for each key: the key, the rows of the series and the named fitted models.
\<close>

record ('a, 'd) mable =
  mkey :: "string list"
  mindex :: string
  mresponse :: string
  minterval :: int
  mfits :: "(('a, 'd) row \<times> ('a, 'd) row list \<times> (string \<times> (nat \<Rightarrow> 'd)) list) list"

definition key_row :: "string list \<Rightarrow> ('a, 'd) row \<Rightarrow> ('a, 'd) row" where
  "key_row key r =
     concat (map (\<lambda>k. case map_of r k of None \<Rightarrow> [] | Some c \<Rightarrow> [(k, c)]) key)"

definition series_keys :: "string list \<Rightarrow> ('a, 'd) row list \<Rightarrow> ('a, 'd) row list" where
  "series_keys key rs = remdups (map (key_row key) rs)"

definition series_rows :: "string list \<Rightarrow> ('a, 'd) row list \<Rightarrow> ('a, 'd) row \<Rightarrow> ('a, 'd) row list" where
  "series_rows key rs k = filter (\<lambda>r. key_row key r = k) rs"

text \<open>
  The interval of a tsibble is the greatest common divisor of the steps of its index
  column; forecasting needs the index to be a calendar period.
\<close>

definition month_of :: "string \<Rightarrow> ('a, 'd) row \<Rightarrow> error + int" where
  "month_of index r =
     (case map_of r index of
        Some (YearMonth m) \<Rightarrow> Inr m
      | _ \<Rightarrow> Inl (InvalidTsibble ''index is no calendar period''))"

fun steps :: "int list \<Rightarrow> int list" where
  "steps (a # b # xs) = (b - a) # steps (b # xs)"
| "steps xs = []"

definition interval_of :: "int list \<Rightarrow> int" where
  "interval_of ms = foldr gcd (steps ms) 0"

definition fit_series ::
  "('a, 'd) engine \<Rightarrow> string list \<Rightarrow> ('a, 'd) row list \<Rightarrow>
   error + (string \<times> (nat \<Rightarrow> 'd)) list" where
  "fit_series eng specs rs =
     traverse (\<lambda>s. and_then (fit eng (spec_formula s) rs) (\<lambda>m. Inr (spec_name s, m))) specs"

definition model ::
  "('a, 'd) engine \<Rightarrow> ('a, 'd) table \<Rightarrow> string list \<Rightarrow> error + ('a, 'd) mable" where
  "model eng ts specs =
     (case kind ts of
        Tsibble key index \<Rightarrow>
          and_then (traverse (month_of index) (rows ts)) (\<lambda>ms.
          and_then
            (traverse
               (\<lambda>k. and_then (fit_series eng specs (series_rows key (rows ts) k))
                      (\<lambda>fs. Inr (k, series_rows key (rows ts) k, fs)))
               (series_keys key (rows ts)))
            (\<lambda>fitted.
               Inr \<lparr>mkey = key, mindex = index,
                    mresponse = (case specs of [] \<Rightarrow> [] | s # ss \<Rightarrow> spec_response s),
                    minterval = interval_of ms, mfits = fitted\<rparr>))
      | _ \<Rightarrow> Inl (InvalidTsibble ''model needs a tsibble''))"

text \<open>
  \<^verbatim>\<open>fabletools.forecast(r_models, h="2 years")\<close> (line 122): for every series and every
  model one row for each period of the horizon after the last month of the series,
  with the key, the name of the model, the period, the forecast distribution and its
  mean. Two years are \<open>24\<close> months, that is \<open>24\<close> periods of a monthly table.
\<close>

datatype horizon = Years nat | Periods nat

fun periods_ahead :: "int \<Rightarrow> horizon \<Rightarrow> nat" where
  "periods_ahead i (Years y) = nat ((12 * int y + i - 1) div i)"
| "periods_ahead i (Periods n) = n"

fun last_month :: "string \<Rightarrow> ('a, 'd) row list \<Rightarrow> error + int" where
  "last_month index [] = Inl (InvalidTsibble ''empty series'')"
| "last_month index [r] = month_of index r"
| "last_month index (r # rs) =
     and_then (month_of index r) (\<lambda>m. and_then (last_month index rs) (\<lambda>n. Inr (max m n)))"

definition forecast_row ::
  "('a, 'd) engine \<Rightarrow> ('a, 'd) mable \<Rightarrow> ('a, 'd) row \<Rightarrow> string \<Rightarrow> int \<Rightarrow> 'd \<Rightarrow> ('a, 'd) row" where
  "forecast_row eng mb k name m d =
     k @ [(''.model'', Chr name), (mindex mb, YearMonth m), (mresponse mb, Dist d),
          (''.mean'', Dbl (dist_mean eng d))]"

definition forecast_series ::
  "('a, 'd) engine \<Rightarrow> ('a, 'd) mable \<Rightarrow> nat \<Rightarrow>
   ('a, 'd) row \<times> ('a, 'd) row list \<times> (string \<times> (nat \<Rightarrow> 'd)) list \<Rightarrow>
   error + ('a, 'd) row list" where
  "forecast_series eng mb n e =
     (case e of (k, rs, fs) \<Rightarrow>
        and_then (last_month (mindex mb) rs) (\<lambda>l.
          Inr (concat (map (\<lambda>(name, f).
                 map (\<lambda>i. forecast_row eng mb k name (l + int i * minterval mb) (f i))
                   [1..<Suc n]) fs))))"

definition forecast ::
  "('a, 'd) engine \<Rightarrow> ('a, 'd) mable \<Rightarrow> horizon \<Rightarrow> error + ('a, 'd) table" where
  "forecast eng mb h =
     (if minterval mb \<le> 0 then Inl (InvalidTsibble ''unknown interval'')
      else and_then (traverse (forecast_series eng mb (periods_ahead (minterval mb) h)) (mfits mb))
             (\<lambda>rss. Inr \<lparr>kind = Fable (mkey mb @ [''.model'']) (mindex mb) (mresponse mb),
                          cols = mkey mb @ [''.model'', mindex mb, mresponse mb, ''.mean''],
                          rows = concat rss\<rparr>))"

section \<open>Prediction intervals and column selection\<close>

text \<open>
  \<^verbatim>\<open>distributional.hilo(r_forecast, level=95.0)\<close> (line 124) adds to a fable the column
  \<^verbatim>\<open>95%\<close> with the interval of that level of every forecast distribution; the result
  is a tsibble. \<^verbatim>\<open>fabletools.unpack_hilo(fcst_dist, "95%")\<close> (line 125) replaces that
  column by the columns \<^verbatim>\<open>95%_lower\<close> and \<^verbatim>\<open>95%_upper\<close>.
\<close>

definition digit_char :: "nat \<Rightarrow> char" where
  "digit_char n = ''0123456789'' ! (n mod 10)"

fun digits :: "nat \<Rightarrow> string" where
  "digits n = (if n < 10 then [digit_char n] else digits (n div 10) @ [digit_char n])"

declare digits.simps [simp del]

definition level_name :: "nat \<Rightarrow> string" where
  "level_name level = digits level @ ''%''"

definition hilo_row ::
  "('a, 'd) engine \<Rightarrow> nat \<Rightarrow> string \<Rightarrow> ('a, 'd) row \<Rightarrow> error + ('a, 'd) row" where
  "hilo_row eng level resp r =
     (case map_of r resp of
        Some (Dist d) \<Rightarrow>
          Inr (r @ [(level_name level,
                     (case dist_hilo eng level d of (lo, hi) \<Rightarrow> Hilo lo hi))])
      | _ \<Rightarrow> Inl (ObjectNotFound resp))"

definition hilo :: "('a, 'd) engine \<Rightarrow> nat \<Rightarrow> ('a, 'd) table \<Rightarrow> error + ('a, 'd) table" where
  "hilo eng level t =
     (case kind t of
        Fable key index resp \<Rightarrow>
          and_then (traverse (hilo_row eng level resp) (rows t))
            (\<lambda>rs. Inr (t\<lparr>kind := Tsibble key index,
                          cols := cols t @ [level_name level], rows := rs\<rparr>))
      | _ \<Rightarrow> Inl (NotConvertible ''hilo''))"

definition unpack_names :: "string \<Rightarrow> string list \<Rightarrow> string list" where
  "unpack_names n ns =
     concat (map (\<lambda>k. if k = n then [n @ ''_lower'', n @ ''_upper''] else [k]) ns)"

definition unpack_row :: "string \<Rightarrow> ('a, 'd) row \<Rightarrow> error + ('a, 'd) row" where
  "unpack_row n r =
     (case map_of r n of
        Some (Hilo lo hi) \<Rightarrow>
          Inr (concat (map (\<lambda>(k, c). if k = n
                 then [(n @ ''_lower'', Dbl lo), (n @ ''_upper'', Dbl hi)]
                 else [(k, c)]) r))
      | _ \<Rightarrow> Inl (ObjectNotFound n))"

definition unpack_hilo :: "('a, 'd) table \<Rightarrow> string \<Rightarrow> error + ('a, 'd) table" where
  "unpack_hilo t n =
     (if kind t = Pandas then Inl (NotConvertible ''unpack_hilo'')
      else if n \<notin> set (cols t) then Inl (ObjectNotFound n)
      else and_then (traverse (unpack_row n) (rows t))
             (\<lambda>rs. Inr (t\<lparr>cols := unpack_names n (cols t), rows := rs\<rparr>)))"

text \<open>
  \<^verbatim>\<open>DataFrame(fcst_dist).select(...)\<close> (line 127) keeps the named columns. On a
  tsibble the index stays even when it is not named (line 129 reads \<^verbatim>\<open>Month\<close> from the
  result), the key is what is left of the key columns, and the result must again have
  one row for each key and index.
\<close>

definition select_row :: "string list \<Rightarrow> ('a, 'd) row \<Rightarrow> error + ('a, 'd) row" where
  "select_row ns r =
     traverse (\<lambda>n. case map_of r n of
                       None \<Rightarrow> Inl (ObjectNotFound n)
                     | Some c \<Rightarrow> Inr (n, c)) ns"

definition kept_names :: "repr \<Rightarrow> string list \<Rightarrow> string list" where
  "kept_names k ns =
     (case k of
        Tsibble key index \<Rightarrow> (if index \<in> set ns then ns else ns @ [index])
      | Fable key index resp \<Rightarrow> (if index \<in> set ns then ns else ns @ [index])
      | _ \<Rightarrow> ns)"

definition kept_kind :: "repr \<Rightarrow> string list \<Rightarrow> repr" where
  "kept_kind k ns =
     (case k of
        Tsibble key index \<Rightarrow> Tsibble (filter (\<lambda>n. n \<in> set ns) key) index
      | Fable key index resp \<Rightarrow> Tsibble (filter (\<lambda>n. n \<in> set ns) key) index
      | _ \<Rightarrow> k)"

definition still_tsibble :: "repr \<Rightarrow> ('a, 'd) row list \<Rightarrow> bool" where
  "still_tsibble k rs =
     (case k of
        Tsibble key index \<Rightarrow> distinct (map (key_index key index) rs)
      | _ \<Rightarrow> True)"

definition select :: "('a, 'd) table \<Rightarrow> string list \<Rightarrow> error + ('a, 'd) table" where
  "select t ns =
     (if kind t = Pandas then Inl (NotConvertible ''select'')
      else if \<not> set ns \<subseteq> set (cols t) then Inl (ObjectNotFound ''select'')
      else and_then (traverse (select_row (kept_names (kind t) ns)) (rows t))
             (\<lambda>rs. if still_tsibble (kept_kind (kind t) ns) rs
                    then Inr (t\<lparr>kind := kept_kind (kind t) ns,
                                cols := kept_names (kind t) ns, rows := rs\<rparr>)
                    else Inl (InvalidTsibble ''duplicated key and index'')))"

section \<open>The forecasting cells\<close>

text \<open>Lines 112 to 133, from the tsibble \<^verbatim>\<open>rts\<close> to \<^verbatim>\<open>forecast_pdf\<close>.\<close>

definition forecast_cells ::
  "('a, 'd) engine \<Rightarrow> ('a, 'd) table \<Rightarrow> error + ('a, 'd) table" where
  "forecast_cells eng rts =
     and_then (model eng rts python_model_specs) (\<lambda>r_models.
     and_then (forecast eng r_models (Years 2)) (\<lambda>r_forecast.
     and_then (hilo eng 95 r_forecast) (\<lambda>fcst_dist.
     and_then (unpack_hilo fcst_dist ''95%'') (\<lambda>fcst_dist.
     and_then (select fcst_dist
                 [''State'', ''Industry'', ''.model'', ''.mean'', ''95%_lower'', ''95%_upper''])
       (\<lambda>selected_columns.
     and_then (as_data_frame selected_columns) (\<lambda>fcst_r_df.
     and_then (mutate ''Month'' as_datetime fcst_r_df) (\<lambda>r_forecast_date.
       rpy2py r_forecast_date)))))))"

text \<open>Lines 70 to 100 give the tsibble \<^verbatim>\<open>rts\<close>; lines 70 to 133 are the whole pipeline.\<close>

definition python_rts :: "('a::linorder, 'd) table \<Rightarrow> error + ('a, 'd) table" where
  "python_rts aus_retail =
     and_then (to_pandas aus_retail) (\<lambda>aus_retail_pdf.
     and_then (filter_states_industries aus_retail_pdf) to_tsibble)"

definition python_pipeline ::
  "('a::linorder, 'd) engine \<Rightarrow> ('a, 'd) table \<Rightarrow> error + ('a, 'd) table" where
  "python_pipeline eng aus_retail = and_then (python_rts aus_retail) (forecast_cells eng)"

text \<open>
  A table is monthly when the steps of its \<^verbatim>\<open>Month\<close> column have the greatest common
  divisor one. The combination of a forecast row is its region, category, model and
  period. \<open>forecast_pdf_row\<close> is the row of \<^verbatim>\<open>forecast_pdf\<close> for a key, a model, a
  month and a forecast distribution.
\<close>

definition monthly :: "('a, 'd) table \<Rightarrow> bool" where
  "monthly t =
     (case traverse (month_of ''Month'') (rows t) of
        Inl e \<Rightarrow> False
      | Inr ms \<Rightarrow> interval_of ms = 1)"

definition combination ::
  "('a, 'd) row \<Rightarrow>
   ('a, 'd) cell option \<times> ('a, 'd) cell option \<times> ('a, 'd) cell option \<times> ('a, 'd) cell option" where
  "combination r =
     (map_of r ''State'', map_of r ''Industry'', map_of r ''.model'', map_of r ''Month'')"

definition forecast_pdf_row ::
  "('a, 'd) engine \<Rightarrow> ('a, 'd) row \<Rightarrow> string \<Rightarrow> int \<Rightarrow> 'd \<Rightarrow> ('a, 'd) row" where
  "forecast_pdf_row eng k name m d =
     k @ [(''.model'', Chr name), (''.mean'', Dbl (dist_mean eng d)),
          (''95%_lower'', Dbl (fst (dist_hilo eng 95 d))),
          (''95%_upper'', Dbl (snd (dist_hilo eng 95 d))),
          (''Month'', Datetime64 (86400 * month_start_day m * 1000000000))]"

text \<open>A toy engine for examples: the forecast is the last observation plus the step.\<close>

definition last_turnover :: "(int, int) row list \<Rightarrow> int" where
  "last_turnover rs =
     (case map_of (last rs) ''Turnover'' of Some (Dbl x) \<Rightarrow> x | _ \<Rightarrow> 0)"

definition toy_engine :: "(int, int) engine" where
  "toy_engine =
     \<lparr>fit = (\<lambda>f rs. if rs = [] then Inl (EngineError f)
                     else Inr (\<lambda>i. last_turnover rs + int i)),
      dist_mean = (\<lambda>d. d),
      dist_hilo = (\<lambda>level d. (d - int level, d + int level))\<rparr>"

text \<open>The key of a series of the retail data: its State and its Industry.\<close>

definition key_shape :: "('a, 'd) row \<Rightarrow> bool" where
  "key_shape k = (map fst k = [''State'', ''Industry''] \<and> list_all (\<lambda>p. plain (snd p)) k)"

definition fable_row ::
  "('a, 'd) engine \<Rightarrow> ('a, 'd) row \<Rightarrow> string \<Rightarrow> int \<Rightarrow> 'd \<Rightarrow> ('a, 'd) row" where
  "fable_row eng k name m d =
     k @ [(''.model'', Chr name), (''Month'', YearMonth m), (''Turnover'', Dist d),
          (''.mean'', Dbl (dist_mean eng d))]"

text \<open>
  The rows of the tables of lines 127 and 129: the selected columns with \<^verbatim>\<open>Month\<close>
  as yearmonth and as datetime.
\<close>

definition forecast_selected_row ::
  "('a, 'd) engine \<Rightarrow> ('a, 'd) row \<Rightarrow> string \<Rightarrow> int \<Rightarrow> 'd \<Rightarrow> ('a, 'd) row" where
  "forecast_selected_row eng k name m d =
     k @ [(''.model'', Chr name), (''.mean'', Dbl (dist_mean eng d)),
          (''95%_lower'', Dbl (fst (dist_hilo eng 95 d))),
          (''95%_upper'', Dbl (snd (dist_hilo eng 95 d))),
          (''Month'', YearMonth m)]"

definition forecast_datetime_row ::
  "('a, 'd) engine \<Rightarrow> ('a, 'd) row \<Rightarrow> string \<Rightarrow> int \<Rightarrow> 'd \<Rightarrow> ('a, 'd) row" where
  "forecast_datetime_row eng k name m d =
     k @ [(''.model'', Chr name), (''.mean'', Dbl (dist_mean eng d)),
          (''95%_lower'', Dbl (fst (dist_hilo eng 95 d))),
          (''95%_upper'', Dbl (snd (dist_hilo eng 95 d))),
          (''Month'', POSIXct (86400 * month_start_day m))]"

text \<open>
  The forecasts of a run that succeeds, one entry for each series, model and step: the
  key, the name of the model, the month and the distribution the fitted model gives.
\<close>

definition forecast_entries ::
  "('a, 'd) engine \<Rightarrow> ('a, 'd) table \<Rightarrow> (('a, 'd) row \<times> string \<times> int \<times> 'd) list" where
  "forecast_entries eng rts =
     map (\<lambda>(k, s, i).
            (k, spec_name s,
             projr (last_month ''Month'' (series_rows [''State'', ''Industry''] (rows rts) k)) + int i,
             projr (fit eng (spec_formula s)
                      (series_rows [''State'', ''Industry''] (rows rts) k)) i))
       (List.product (series_keys [''State'', ''Industry''] (rows rts))
          (List.product python_model_specs [1..<25]))"

section \<open>The native R cell\<close>






section \<open>A small retail table\<close>

text \<open>
  Eight rows with the columns of \<^verbatim>\<open>tsibbledata::aus_retail\<close> (State, Industry,
  Series ID, Month, Turnover), keyed by State and Industry, monthly from April 1982
  (month 147), in the order of the key and then the month.
\<close>

definition retail_row :: "string \<Rightarrow> string \<Rightarrow> string \<Rightarrow> int \<Rightarrow> int \<Rightarrow> (int, int) row" where
  "retail_row s i sid m x =
     [(''State'', Chr s), (''Industry'', Chr i), (''Series ID'', Chr sid),
      (''Month'', YearMonth m), (''Turnover'', Dbl x)]"

definition sample_retail :: "(int, int) table" where
  "sample_retail =
     \<lparr>kind = Tsibble [''State'', ''Industry''] ''Month'',
      cols = [''State'', ''Industry'', ''Series ID'', ''Month'', ''Turnover''],
      rows =
        [retail_row ''New South Wales'' ''Department stores'' ''A3349790V'' 147 2011,
         retail_row ''New South Wales'' ''Department stores'' ''A3349790V'' 148 2024,
         retail_row ''New South Wales'' ''Food retailing'' ''A3349335T'' 147 7493,
         retail_row ''New South Wales'' ''Food retailing'' ''A3349335T'' 148 7557,
         retail_row ''Queensland'' ''Department stores'' ''A3349561R'' 147 993,
         retail_row ''Queensland'' ''Department stores'' ''A3349561R'' 148 1040,
         retail_row ''Victoria'' ''Department stores'' ''A3349815C'' 147 1768,
         retail_row ''Victoria'' ''Department stores'' ''A3349815C'' 148 1801]\<rparr>"


text \<open>
  One series of that table alone, the department stores of Victoria in April and May
  1982, and the same series with the months January and February 2300 (months 3960 and
  3961), which are past the last instant of \<^verbatim>\<open>datetime64[ns]\<close>.
\<close>

definition small_retail :: "(int, int) table" where
  "small_retail =
     \<lparr>kind = Tsibble [''State'', ''Industry''] ''Month'',
      cols = [''State'', ''Industry'', ''Series ID'', ''Month'', ''Turnover''],
      rows =
        [retail_row ''Victoria'' ''Department stores'' ''A3349815C'' 147 1768,
         retail_row ''Victoria'' ''Department stores'' ''A3349815C'' 148 1801]\<rparr>"


text \<open>
  The forecasts of the small table under the toy engine below: for each of the three
  models the months June 1982 to May 1984, the mean one more each month.
\<close>

definition small_forecast :: "(int, int) table" where
  "small_forecast =
     \<lparr>kind = Pandas,
      cols = [''State'', ''Industry'', ''.model'', ''.mean'', ''95%_lower'', ''95%_upper'', ''Month''],
      rows =
        concat (map (\<lambda>name.
          map (\<lambda>i. [(''State'', Chr ''Victoria''), (''Industry'', Chr ''Department stores''),
                     (''.model'', Chr name), (''.mean'', Dbl (1801 + int i)),
                     (''95%_lower'', Dbl (1706 + int i)), (''95%_upper'', Dbl (1896 + int i)),
                     (''Month'', Datetime64 (86400 * month_start_day (148 + int i) * 1000000000))])
            [1..<25]) [''ets'', ''arima'', ''snaive''])\<rparr>"
section \<open>Helper lemmas\<close>

lemma traverse_Inr_iff:
  "traverse f xs = Inr ys \<longleftrightarrow> list_all2 (\<lambda>x y. f x = Inr y) xs ys"
proof (induction xs arbitrary: ys)
  case Nil
  show ?case by auto
next
  case (Cons x xs)
  have "traverse f (x # xs) = Inr ys \<longleftrightarrow>
        (\<exists>y ys'. f x = Inr y \<and> traverse f xs = Inr ys' \<and> ys = y # ys')"
    by (auto split: sum.splits)
  also have "\<dots> \<longleftrightarrow>
        (\<exists>y ys'. f x = Inr y \<and> list_all2 (\<lambda>x y. f x = Inr y) xs ys' \<and> ys = y # ys')"
    by (simp add: Cons.IH)
  also have "\<dots> \<longleftrightarrow> list_all2 (\<lambda>x y. f x = Inr y) (x # xs) ys"
    by (auto simp: list_all2_Cons1)
  finally show ?case .
qed

lemma traverse_length: "traverse f xs = Inr ys \<Longrightarrow> length ys = length xs"
  by (auto simp: traverse_Inr_iff dest: list_all2_lengthD)

lemma traverse_total:
  "(\<And>x. x \<in> set xs \<Longrightarrow> \<exists>y. f x = Inr y) \<Longrightarrow> \<exists>ys. traverse f xs = Inr ys"
proof (induction xs)
  case Nil
  show ?case by simp
next
  case (Cons x xs)
  then obtain y where y: "f x = Inr y" by auto
  from Cons obtain ys where "traverse f xs = Inr ys" by auto
  with y show ?case by simp
qed

lemma wf_field:
  assumes "wf_table t" "r \<in> set (rows t)" "n \<in> set (cols t)"
  shows "\<exists>c. map_of r n = Some c"
proof -
  from assms have "n \<in> fst ` set r"
    by (metis wf_table_def list.set_map)
  then show ?thesis
    by (metis map_of_eq_None_iff not_Some_eq)
qed

lemma get_column_total:
  assumes "wf_table t" "n \<in> set (cols t)"
  shows "\<exists>cs. get_column n t = Inr cs"
proof -
  have "\<exists>c. field n r = Inr c" if "r \<in> set (rows t)" for r
    using wf_field [OF assms(1) that assms(2)] by (auto simp: field_def)
  then show ?thesis
    using assms(2) by (simp add: get_column_def traverse_total)
qed

lemma get_column_cells:
  assumes "get_column n t = Inr cs"
  shows "list_all2 (\<lambda>r c. map_of r n = Some c) (rows t) cs"
proof -
  from assms have "list_all2 (\<lambda>r c. field n r = Inr c) (rows t) cs"
    by (simp add: get_column_def traverse_Inr_iff split: if_splits)
  then show ?thesis
    by (rule list_all2_mono) (auto simp: field_def split: option.splits)
qed

lemma masked_rows:
  assumes "list_all2 (\<lambda>r m. m = P r) rs ms"
  shows "map fst (filter snd (zip rs ms)) = filter P rs"
  using assms by (induction rs ms rule: list_all2_induct) auto

lemma filter_mask:
  assumes s: "list_all2 (\<lambda>r c. map_of r ''State'' = Some c) rs ss"
      and i: "list_all2 (\<lambda>r c. map_of r ''Industry'' = Some c) rs is"
  shows "list_all2 (\<lambda>r m. m = selected r) rs
           (mask_and (isin ss [''New South Wales'', ''Victoria''])
                     (isin is [''Department stores'']))"
proof -
  have len: "length ss = length rs" "length is = length rs"
    using s i by (auto dest: list_all2_lengthD)
  have "cell_isin [''New South Wales'', ''Victoria''] (ss ! k) \<and>
        cell_isin [''Department stores''] (is ! k) \<longleftrightarrow> selected (rs ! k)"
    if "k < length rs" for k
  proof -
    from s that have a: "map_of (rs ! k) ''State'' = Some (ss ! k)"
      by (simp add: list_all2_conv_all_nth)
    from i that have b: "map_of (rs ! k) ''Industry'' = Some (is ! k)"
      by (simp add: list_all2_conv_all_nth)
    show ?thesis
      unfolding selected_def a b
      by (cases "ss ! k"; cases "is ! k") auto
  qed
  then show ?thesis
    using len by (simp add: list_all2_conv_all_nth mask_and_def isin_def)
qed

lemma filter_states_industries_rows:
  assumes "filter_states_industries t = Inr t'"
  shows "t' = t\<lparr>rows := filter selected (rows t)\<rparr>"
proof -
  from assms obtain ss "is" where
    ss: "get_column ''State'' t = Inr ss" and
    ii: "get_column ''Industry'' t = Inr is" and
    bi: "boolean_index t (mask_and (isin ss [''New South Wales'', ''Victoria''])
           (isin is [''Department stores''])) = Inr t'"
    by (auto simp: filter_states_industries_def and_then_def split: sum.splits)
  have "list_all2 (\<lambda>r m. m = selected r) (rows t)
          (mask_and (isin ss [''New South Wales'', ''Victoria''])
                    (isin is [''Department stores'']))"
    by (rule filter_mask [OF get_column_cells [OF ss] get_column_cells [OF ii]])
  then have "map fst (filter snd (zip (rows t)
               (mask_and (isin ss [''New South Wales'', ''Victoria''])
                         (isin is [''Department stores''])))) = filter selected (rows t)"
    by (rule masked_rows)
  with bi show ?thesis
    by (auto simp: boolean_index_def split: if_splits)
qed

lemma filter_states_industries_total:
  assumes "wf_table t" "''State'' \<in> set (cols t)" "''Industry'' \<in> set (cols t)"
  shows "\<exists>t'. filter_states_industries t = Inr t'"
proof -
  from get_column_total [OF assms(1,2)] obtain ss where
    ss: "get_column ''State'' t = Inr ss" by blast
  from get_column_total [OF assms(1,3)] obtain "is" where
    ii: "get_column ''Industry'' t = Inr is" by blast
  have "length ss = length (rows t)" "length is = length (rows t)"
    using get_column_cells [OF ss] get_column_cells [OF ii]
    by (auto dest: list_all2_lengthD)
  then show ?thesis
    by (simp add: filter_states_industries_def and_then_def ss ii boolean_index_def
        mask_and_def isin_def)
qed

subsection \<open>The calendar round trip\<close>

lemma div_365_unique:
  fixes s y r :: int
  shows "s = 365 * y + r \<Longrightarrow> 0 \<le> r \<Longrightarrow> r < 365 \<Longrightarrow> s div 365 = y"
  by simp

lemma year_of_era_parts:
  fixes c q k doy :: int
  assumes c: "0 \<le> c" "c \<le> 3" and q: "0 \<le> q" "q \<le> 24" and k: "0 \<le> k" "k \<le> 3"
      and doy: "0 \<le> doy" "doy \<le> 364"
      and yoe: "yoe = 100 * c + 4 * q + k"
      and doe: "doe = yoe * 365 + yoe div 4 - yoe div 100 + doy"
  shows "(doe - doe div 1460 + doe div 36524 - doe div 146096) div 365 = yoe"
    and "0 \<le> doe" and "doe < 146097"
    and "doe - (365 * yoe + yoe div 4 - yoe div 100) = doy"
proof -
  have y100: "yoe div 100 = c" using c q k yoe by arith
  have y4: "yoe div 4 = 25 * c + q" using c q k yoe by arith
  have d: "doe = 36524 * c + 1461 * q + 365 * k + doy"
    unfolding doe y100 y4 unfolding yoe by simp
  show "0 \<le> doe" "doe < 146097" using c q k doy d by simp_all
  have e: "doe div 146096 = 0" using c q k doy d by simp
  have b: "doe div 36524 = c" using c q k doy d by arith
  have a: "doe div 1460 = 25 * c + q \<or> (doe div 1460 = 25 * c + q + 1 \<and> 1 \<le> doy)"
    using c q k doy d by arith
  show "(doe - doe div 1460 + doe div 36524 - doe div 146096) div 365 = yoe"
    using a
  proof
    assume h: "doe div 1460 = 25 * c + q"
    have "doe - doe div 1460 + doe div 36524 - doe div 146096 = 365 * yoe + doy"
      unfolding h b e unfolding d yoe by simp
    then show ?thesis by (rule div_365_unique) (use doy in simp_all)
  next
    assume h: "doe div 1460 = 25 * c + q + 1 \<and> 1 \<le> doy"
    then have h1: "doe div 1460 = 25 * c + q + 1" by simp
    have "doe - doe div 1460 + doe div 36524 - doe div 146096 = 365 * yoe + (doy - 1)"
      unfolding h1 b e unfolding d yoe by simp
    then show ?thesis by (rule div_365_unique) (use doy h in simp_all)
  qed
  show "doe - (365 * yoe + yoe div 4 - yoe div 100) = doy"
    by (simp add: doe)
qed

lemma month_part:
  fixes mp :: int
  assumes "0 \<le> mp" "mp \<le> 11" "doy = (153 * mp + 2) div 5"
  shows "(5 * doy + 2) div 153 = mp" and "0 \<le> doy" and "doy \<le> 364"
proof -
  from assms(1,2) have "mp \<in> {0, 1, 2, 3, 4, 5, 6, 7, 8, 9, 10, 11}" by simp arith
  then show "(5 * doy + 2) div 153 = mp" "0 \<le> doy" "doy \<le> 364"
    unfolding assms(3) by auto
qed

lemma civil_from_days_first_of_month:
  assumes mo: "1 \<le> mo" "mo \<le> 12"
  shows "civil_from_days (days_from_civil y mo 1) = (y, mo, 1)"
proof -
  define y' where "y' = (if mo \<le> 2 then y - 1 else y)"
  define era where "era = y' div 400"
  define yoe where "yoe = y' - era * 400"
  define mp where "mp = (if mo > 2 then mo - 3 else mo + 9)"
  define doy where "doy = (153 * mp + 2) div 5"
  define doe where "doe = yoe * 365 + yoe div 4 - yoe div 100 + doy"
  have z: "days_from_civil y mo 1 = era * 146097 + doe - 719468"
    by (simp add: days_from_civil_def Let_def y'_def era_def yoe_def mp_def doy_def doe_def)
  have mp: "0 \<le> mp" "mp \<le> 11" using mo by (auto simp: mp_def)
  note m = month_part [OF mp doy_def]
  have yoe_mod: "yoe = y' mod 400"
    by (simp add: yoe_def era_def minus_div_mult_eq_mod)
  then have yoe_bounds: "0 \<le> yoe" "yoe < 400" by simp_all
  define c where "c = yoe div 100"
  define q where "q = (yoe mod 100) div 4"
  define k where "k = (yoe mod 100) mod 4"
  have c: "0 \<le> c" "c \<le> 3" using yoe_bounds unfolding c_def by arith+
  have r: "0 \<le> yoe mod 100" "yoe mod 100 < 100" by simp_all
  have q: "0 \<le> q" "q \<le> 24" using r unfolding q_def by arith+
  have k: "0 \<le> k" "k \<le> 3" unfolding k_def by simp_all
  have "yoe = 100 * c + yoe mod 100" by (simp add: c_def)
  also have "yoe mod 100 = 4 * q + k" by (simp add: q_def k_def)
  finally have decomp: "yoe = 100 * c + 4 * q + k" by simp
  note parts = c q k decomp
  note e = year_of_era_parts [OF parts(1-6) m(2,3) parts(7) doe_def]
  have era': "(era * 146097 + doe) div 146097 = era"
    using e(2,3) by simp
  have doe': "era * 146097 + doe - era * 146097 = doe" by simp
  have mo_eq: "(if mp < 10 then mp + 3 else mp - 9) = mo"
    using mo by (auto simp: mp_def)
  have year: "yoe + era * 400 + (if mo \<le> 2 then 1 else 0) = y"
    by (auto simp: yoe_def y'_def)
  have z': "days_from_civil y mo 1 + 719468 = era * 146097 + doe"
    by (simp add: z)
  have d1: "doy - doy + 1 = (1::int)" by simp
  show ?thesis
    unfolding civil_from_days_def Let_def z' era' doe' e(1) e(4) m(1) doy_def [symmetric]
      d1 mo_eq year ..
qed

lemma month_of_day_month_start_day: "month_of_day (month_start_day m) = m"
proof -
  have "civil_from_days (month_start_day m) = (1970 + m div 12, m mod 12 + 1, 1)"
    unfolding month_start_day_def by (rule civil_from_days_first_of_month) simp_all
  then show ?thesis
    by (simp add: month_of_day_def)
qed


lemma first_day_bounds:
  fixes y' mp :: int
  assumes y: "1677 \<le> y'" "y' \<le> 2262" and mp: "0 \<le> mp" "mp \<le> 11"
      and lo: "y' = 1677 \<Longrightarrow> 7 \<le> mp" and hi: "y' = 2262 \<Longrightarrow> mp \<le> 1"
  defines "era \<equiv> y' div 400"
  defines "yoe \<equiv> y' - era * 400"
  defines "v \<equiv> era * 146097 + (yoe * 365 + yoe div 4 - yoe div 100 + (153 * mp + 2) div 5) - 719468"
  shows "- 106742 \<le> v \<and> v \<le> 106741"
proof -
  have doy: "0 \<le> (153 * mp + 2) div 5" "(153 * mp + 2) div 5 \<le> 337"
    using mp by arith+
  have doy_lo: "214 \<le> (153 * mp + 2) div 5" if "7 \<le> mp" using that by arith
  have doy_hi: "(153 * mp + 2) div 5 \<le> 31" if "mp \<le> 1" using that by arith
  consider "y' \<le> 1999" | "2000 \<le> y'" by linarith
  then show ?thesis
  proof cases
    case 1
    with y have e: "era = 4" unfolding era_def by arith
    have yoe: "yoe = y' - 1600" by (simp add: yoe_def e)
    have q: "yoe div 100 \<le> 3" "0 \<le> yoe div 100" "yoe div 4 \<le> 99" using y 1 unfolding yoe by arith+
    have q4: "19 \<le> yoe div 4" using y unfolding yoe by arith
    have q100: "yoe div 100 = 0" if "y' \<le> 1699" using that y unfolding yoe by arith
    show ?thesis
    proof (cases "y' = 1677")
      case True
      from lo [OF True] doy_lo have "214 \<le> (153 * mp + 2) div 5" by simp
      with True doy(2) show ?thesis
        by (simp add: v_def e yoe)
    next
      case False
      with y have y78: "1678 \<le> y'" by simp
      show ?thesis
      proof (cases "y' \<le> 1699")
        case True
        from q100 [OF True] q4 q(3) doy y78 True show ?thesis
          by (simp add: v_def e yoe)
      next
        case False
        with q q4 doy 1 show ?thesis
          by (simp add: v_def e yoe)
      qed
    qed
  next
    case 2
    with y have e: "era = 5" unfolding era_def by arith
    have yoe: "yoe = y' - 2000" by (simp add: yoe_def e)
    have q: "0 \<le> yoe div 100" "0 \<le> yoe div 4" "yoe div 4 \<le> 65" "yoe div 100 \<le> 2"
      using y 2 unfolding yoe by arith+
    show ?thesis
    proof (cases "y' = 2262")
      case True
      from hi [OF True] doy_hi have "(153 * mp + 2) div 5 \<le> 31" by simp
      with True doy(1) show ?thesis
        by (simp add: v_def e yoe)
    next
      case False
      with y have "y' \<le> 2261" by simp
      with q doy 2 show ?thesis
        by (simp add: v_def e yoe)
    qed
  qed
qed

lemma month_start_day_bounds:
  assumes "- 3507 \<le> m" "m \<le> 3507"
  shows "- 106742 \<le> month_start_day m \<and> month_start_day m \<le> 106741"
proof -
  define q where "q = m div 12"
  define r where "r = m mod 12"
  have r: "0 \<le> r" "r \<le> 11" by (simp_all add: r_def)
  have m: "m = 12 * q + r" by (simp add: q_def r_def)
  from assms m r have q: "- 293 \<le> q" "q \<le> 292" by arith+
  from assms m r have lo: "9 \<le> r" if "q = - 293" using that by arith
  from assms m r have hi: "r \<le> 3" if "q = 292" using that by arith
  define y' where "y' = (if r + 1 \<le> 2 then 1970 + q - 1 else 1970 + q)"
  define mp where "mp = (if r + 1 > 2 then r + 1 - 3 else r + 1 + 9)"
  have "- 106742 \<le> y' div 400 * 146097 +
      ((y' - y' div 400 * 400) * 365 + (y' - y' div 400 * 400) div 4 -
       (y' - y' div 400 * 400) div 100 + (153 * mp + 2) div 5) - 719468 \<and>
     y' div 400 * 146097 +
      ((y' - y' div 400 * 400) * 365 + (y' - y' div 400 * 400) div 4 -
       (y' - y' div 400 * 400) div 100 + (153 * mp + 2) div 5) - 719468 \<le> 106741"
  proof (rule first_day_bounds)
    show "1677 \<le> y'" using q lo r by (cases "q = - 293") (auto simp: y'_def)
    show "y' \<le> 2262" using q by (auto simp: y'_def)
    show "0 \<le> mp" "mp \<le> 11" using r by (auto simp: mp_def)
    show "7 \<le> mp" if "y' = 1677"
      using that q lo r by (cases "q = - 293") (auto simp: y'_def mp_def split: if_splits)
    show "mp \<le> 1" if "y' = 2262"
      using that q hi r by (cases "q = 292") (auto simp: y'_def mp_def split: if_splits)
  qed
  moreover have "month_start_day m = y' div 400 * 146097 +
      ((y' - y' div 400 * 400) * 365 + (y' - y' div 400 * 400) div 4 -
       (y' - y' div 400 * 400) div 100 + (153 * mp + 2) div 5) - 719468"
    unfolding month_start_day_def days_from_civil_def Let_def q_def [symmetric]
      r_def [symmetric] y'_def mp_def
    by simp
  ultimately show ?thesis by simp
qed

subsection \<open>Conversions in closed form\<close>

lemma traverse_map:
  assumes "\<And>x. x \<in> set xs \<Longrightarrow> f x = Inr (g x)"
  shows "traverse f xs = Inr (map g xs)"
  using assms by (induction xs) simp_all

lemma traverse_first_error:
  assumes "traverse f xs = Inl e"
  shows "\<exists>x \<in> set xs. f x = Inl e"
  using assms by (induction xs) (auto split: sum.splits)

lemma map_of_map_column:
  "map_of (map_column n g r) k =
     (if k = n then map_option g (map_of r n) else map_of r k)"
  by (induction r) (auto simp: map_column_def)

lemma map_of_map_cells:
  "map_of (map (\<lambda>p. (fst p, g (snd p))) r) k = map_option g (map_of r k)"
  by (induction r) auto

lemma names_map_column [simp]: "map fst (map_column n g r) = map fst r"
  by (induction r) (auto simp: map_column_def)

lemma names_map_cells [simp]: "map fst (map (\<lambda>p. (fst p, g (snd p))) r) = map fst r"
  by (induction r) auto

lemma set_field_map_column:
  assumes "distinct (map fst r)" "map_of r n = Some c"
  shows "set_field n (g c) r = map_column n g r"
proof -
  have "c' = c" if "(n, c') \<in> set r" for c'
    using assms that by (metis map_of_is_SomeI option.inject)
  then show ?thesis
    unfolding set_field_def map_column_def by (auto intro!: map_cong)
qed

lemma mutate_row_closed:
  assumes "distinct (map fst r)" "map_of r n = Some c" "f c = Inr c'"
  shows "mutate_row n f r = Inr (map_column n (value_of f) r)"
proof -
  have "value_of f c = c'" using assms(3) by (simp add: value_of_def)
  then show ?thesis
    using assms set_field_map_column [OF assms(1,2), of "value_of f"]
    by (simp add: mutate_row_def and_then_def)
qed

lemma convert_row_closed:
  assumes "\<And>k c. (k, c) \<in> set r \<Longrightarrow> \<exists>c'. f c = Inr c'"
  shows "traverse (convert_field f) r = Inr (map (\<lambda>p. (fst p, value_of f (snd p))) r)"
proof (rule traverse_map)
  fix p assume "p \<in> set r"
  then obtain c' where "f (snd p) = Inr c'"
    using assms [of "fst p" "snd p"] by auto
  then show "convert_field f p = Inr (fst p, value_of f (snd p))"
    by (simp add: convert_field_def and_then_def value_of_def)
qed

lemma mutate_closed:
  assumes "kind t \<noteq> Pandas" "wf_table t" "n \<in> set (cols t)"
      and "\<And>r. r \<in> set (rows t) \<Longrightarrow> \<exists>c c'. map_of r n = Some c \<and> f c = Inr c'"
  shows "mutate n f t = Inr (t\<lparr>rows := map (map_column n (value_of f)) (rows t)\<rparr>)"
proof -
  have "mutate_row n f r = Inr (map_column n (value_of f) r)" if "r \<in> set (rows t)" for r
  proof -
    from assms(4) [OF that] obtain c c' where "map_of r n = Some c" "f c = Inr c'" by blast
    moreover have "distinct (map fst r)"
      using assms(2) that by (simp add: wf_table_def)
    ultimately show ?thesis by (rule mutate_row_closed [rotated])
  qed
  then have "traverse (mutate_row n f) (rows t) = Inr (map (map_column n (value_of f)) (rows t))"
    by (rule traverse_map)
  then show ?thesis
    using assms(1,3) by (simp add: mutate_def and_then_def)
qed

lemma rpy2py_closed:
  assumes "kind t = RDataFrame"
      and "\<And>r k c. r \<in> set (rows t) \<Longrightarrow> (k, c) \<in> set r \<Longrightarrow> \<exists>c'. rpy2py_cell c = Inr c'"
  shows "rpy2py t =
     Inr (t\<lparr>kind := Pandas,
           rows := map (map (\<lambda>p. (fst p, value_of rpy2py_cell (snd p)))) (rows t)\<rparr>)"
proof -
  have "traverse (traverse (convert_field rpy2py_cell)) (rows t) =
        Inr (map (map (\<lambda>p. (fst p, value_of rpy2py_cell (snd p)))) (rows t))"
    by (rule traverse_map, rule convert_row_closed) (use assms(2) in blast)
  then show ?thesis
    using assms(1) by (simp add: rpy2py_def and_then_def)
qed

lemma py2rpy_closed:
  assumes "kind t = Pandas"
      and "\<And>r k c. r \<in> set (rows t) \<Longrightarrow> (k, c) \<in> set r \<Longrightarrow> \<exists>c'. py2rpy_cell c = Inr c'"
  shows "py2rpy t =
     Inr (t\<lparr>kind := RDataFrame,
           rows := map (map (\<lambda>p. (fst p, value_of py2rpy_cell (snd p)))) (rows t)\<rparr>)"
proof -
  have "traverse (traverse (convert_field py2rpy_cell)) (rows t) =
        Inr (map (map (\<lambda>p. (fst p, value_of py2rpy_cell (snd p)))) (rows t))"
    by (rule traverse_map, rule convert_row_closed) (use assms(2) in blast)
  then show ?thesis
    using assms(1) by (simp add: py2rpy_def and_then_def)
qed

subsection \<open>Arranging rows\<close>

lemma mset_insert_row: "mset (insert_row lt x ys) = add_mset x (mset ys)"
  by (induction ys) auto

lemma mset_arrange: "mset (arrange lt rs) = mset rs"
  by (induction rs) (auto simp: arrange_def mset_insert_row)



subsection \<open>The shape of the rows at each step\<close>

lemma stage_rows_convert:
  "month_datetime_row = convert_row (value_of as_datetime) (\<lambda>c. c)"
  "pandas_row = convert_row (value_of rpy2py_cell) (value_of rpy2py_cell)"
  "r_row = convert_row (value_of py2rpy_cell) (value_of py2rpy_cell)"
  "month_period_row = convert_row (value_of yearmonth) (\<lambda>c. c)"
  by (auto simp: month_datetime_row_def pandas_row_def r_row_def month_period_row_def
      convert_row_def map_column_def fun_eq_iff)

lemma convert_row_compose:
  "convert_row hm hk (convert_row gm gk r) = convert_row (\<lambda>c. hm (gm c)) (\<lambda>c. hk (gk c)) r"
  by (induction r) (auto simp: convert_row_def)

lemma names_convert_row [simp]: "map fst (convert_row hm hk r) = map fst r"
  by (induction r) (auto simp: convert_row_def)

lemma map_of_convert_row:
  "map_of (convert_row hm hk r) k =
     (if k = ''Month'' then map_option hm (map_of r k) else map_option hk (map_of r k))"
  by (induction r) (auto simp: convert_row_def)

lemma shape_cell:
  assumes "column_shape P r" "(k, c) \<in> set r"
  shows "if k = ''Month'' then P c else plain c"
  using assms by (auto simp: column_shape_def list_all_iff)

lemma shape_map_of:
  assumes "column_shape P r" "map_of r k = Some c"
  shows "if k = ''Month'' then P c else plain c"
  using shape_cell [OF assms(1) map_of_SomeD [OF assms(2)]] .

lemma shape_convert_row:
  assumes "column_shape P r" "\<And>c. P c \<Longrightarrow> Q (hm c)" "\<And>c. plain c \<Longrightarrow> plain (hk c)"
  shows "column_shape Q (convert_row hm hk r)"
  using assms by (induction r) (auto simp: column_shape_def convert_row_def split: if_splits)

lemma convert_row_id:
  assumes "column_shape P r" "\<And>c. P c \<Longrightarrow> hm c = c" "\<And>c. plain c \<Longrightarrow> hk c = c"
  shows "convert_row hm hk r = r"
  using assms by (induction r) (auto simp: column_shape_def convert_row_def)




subsection \<open>Cells through the conversions\<close>

lemma as_datetime_yearmonth:
  "is_yearmonth c \<Longrightarrow> \<exists>s. as_datetime c = Inr (POSIXct s)"
  by (cases c) simp_all

lemma yearmonth_posixct:
  "is_posixct c \<Longrightarrow> \<exists>m. yearmonth c = Inr (YearMonth m)"
  by (cases c) simp_all

lemma rpy2py_cell_posixct:
  "posixct_in_range c \<Longrightarrow> \<exists>n. rpy2py_cell c = Inr (Datetime64 n)"
  by (cases c) simp_all

lemma py2rpy_cell_datetime64:
  "datetime64_ok c \<Longrightarrow> \<exists>s. py2rpy_cell c = Inr (POSIXct s)"
  by (cases c) simp_all

lemma rpy2py_cell_plain: "plain c \<Longrightarrow> rpy2py_cell c = Inr c"
  by (cases c) simp_all

lemma py2rpy_cell_plain: "plain c \<Longrightarrow> py2rpy_cell c = Inr c"
  by (cases c) simp_all

lemma value_of_plain [simp]:
  "plain c \<Longrightarrow> value_of rpy2py_cell c = c"
  "plain c \<Longrightarrow> value_of py2rpy_cell c = c"
  by (simp_all add: value_of_def rpy2py_cell_plain py2rpy_cell_plain)

lemma month_in_range_yearmonth: "month_in_range c \<Longrightarrow> is_yearmonth c"
  by (cases c) simp_all

lemma value_of_shapes:
  "month_in_range c \<Longrightarrow> posixct_in_range (value_of as_datetime c)"
  "posixct_in_range c \<Longrightarrow> datetime64_ok (value_of rpy2py_cell c)"
  "datetime64_ok c \<Longrightarrow> is_posixct (value_of py2rpy_cell c)"
  "is_posixct c \<Longrightarrow> is_yearmonth (value_of yearmonth c)"
  by (cases c; simp add: value_of_def datetime64_range_def)+

lemma month_cell_back:
  "month_in_range c \<Longrightarrow> value_of yearmonth (value_of as_datetime c) = c"
  "month_in_range c \<Longrightarrow>
     value_of yearmonth (value_of py2rpy_cell (value_of rpy2py_cell (value_of as_datetime c))) = c"
  by (cases c; simp add: value_of_def month_of_day_month_start_day datetime64_range_def)+

lemma shape_weaken:
  assumes "column_shape P r" "\<And>c. P c \<Longrightarrow> Q c"
  shows "column_shape Q r"
  using assms by (auto simp: column_shape_def list_all_iff)

lemma shape_stage_rows:
  "column_shape month_in_range r \<Longrightarrow> column_shape posixct_in_range (month_datetime_row r)"
  "column_shape posixct_in_range r \<Longrightarrow> column_shape datetime64_ok (pandas_row r)"
  "column_shape datetime64_ok r \<Longrightarrow> column_shape is_posixct (r_row r)"
  "column_shape is_posixct r \<Longrightarrow> column_shape is_yearmonth (month_period_row r)"
  unfolding stage_rows_convert
  by (erule shape_convert_row; simp add: value_of_shapes)+

lemma names_stage_rows [simp]:
  "map fst (month_datetime_row r) = map fst r"
  "map fst (pandas_row r) = map fst r"
  "map fst (r_row r) = map fst r"
  "map fst (month_period_row r) = map fst r"
  by (simp_all add: stage_rows_convert)

lemma row_round_trip:
  assumes "column_shape month_in_range r"
  shows "month_period_row (r_row (pandas_row (month_datetime_row r))) = r"
  unfolding stage_rows_convert convert_row_compose
  by (rule convert_row_id [OF assms]) (simp_all add: month_cell_back)

subsection \<open>Tables through the conversions\<close>

lemma wf_has_column:
  assumes "wf_table t" "r \<in> set (rows t)" "n \<in> set (cols t)"
  shows "n \<in> fst ` set r"
  using assms by (metis wf_table_def list.set_map)

lemma shape_month_some:
  assumes "column_shape P r" "''Month'' \<in> fst ` set r"
  shows "\<exists>c. map_of r ''Month'' = Some c \<and> P c"
proof -
  from assms(2) obtain c where c: "map_of r ''Month'' = Some c"
    by (metis map_of_eq_None_iff not_Some_eq)
  with shape_map_of [OF assms(1) c] show ?thesis by simp
qed

lemma wf_table_rows:
  assumes "wf_table t" "\<And>r. r \<in> set rs \<Longrightarrow> map fst r = cols t"
  shows "wf_table (t\<lparr>kind := k, rows := rs\<rparr>)"
  using assms by (simp add: wf_table_def)

lemma mutate_datetime_step:
  assumes "kind t \<noteq> Pandas" "wf_table t" "''Month'' \<in> set (cols t)"
      and "list_all (column_shape is_yearmonth) (rows t)"
  shows "mutate ''Month'' as_datetime t = Inr (t\<lparr>rows := map month_datetime_row (rows t)\<rparr>)"
proof -
  have "\<exists>c c'. map_of r ''Month'' = Some c \<and> as_datetime c = Inr c'"
    if "r \<in> set (rows t)" for r
  proof -
    from that assms(4) have "column_shape is_yearmonth r" by (simp add: list_all_iff)
    with wf_has_column [OF assms(2) that assms(3)]
    obtain c where "map_of r ''Month'' = Some c" "is_yearmonth c"
      using shape_month_some by blast
    then show ?thesis using as_datetime_yearmonth by blast
  qed
  from mutate_closed [OF assms(1-3) this] show ?thesis
    by (simp add: month_datetime_row_def [abs_def])
qed

lemma mutate_yearmonth_step:
  assumes "kind t \<noteq> Pandas" "wf_table t" "''Month'' \<in> set (cols t)"
      and "list_all (column_shape is_posixct) (rows t)"
  shows "mutate ''Month'' yearmonth t = Inr (t\<lparr>rows := map month_period_row (rows t)\<rparr>)"
proof -
  have "\<exists>c c'. map_of r ''Month'' = Some c \<and> yearmonth c = Inr c'"
    if "r \<in> set (rows t)" for r
  proof -
    from that assms(4) have "column_shape is_posixct r" by (simp add: list_all_iff)
    with wf_has_column [OF assms(2) that assms(3)]
    obtain c where "map_of r ''Month'' = Some c" "is_posixct c"
      using shape_month_some by blast
    then show ?thesis using yearmonth_posixct by blast
  qed
  from mutate_closed [OF assms(1-3) this] show ?thesis
    by (simp add: month_period_row_def [abs_def])
qed

lemma rpy2py_step:
  assumes "kind t = RDataFrame" "list_all (column_shape posixct_in_range) (rows t)"
  shows "rpy2py t = Inr (t\<lparr>kind := Pandas, rows := map pandas_row (rows t)\<rparr>)"
proof -
  have "\<exists>c'. rpy2py_cell c = Inr c'" if "r \<in> set (rows t)" "(n, c) \<in> set r" for r n c
  proof -
    from that(1) assms(2) have "column_shape posixct_in_range r" by (simp add: list_all_iff)
    from shape_cell [OF this that(2)] show ?thesis
      by (auto simp: rpy2py_cell_plain dest: rpy2py_cell_posixct split: if_splits)
  qed
  from rpy2py_closed [OF assms(1) this] show ?thesis
    by (simp add: pandas_row_def [abs_def])
qed

lemma py2rpy_step:
  assumes "kind t = Pandas" "list_all (column_shape datetime64_ok) (rows t)"
  shows "py2rpy t = Inr (t\<lparr>kind := RDataFrame, rows := map r_row (rows t)\<rparr>)"
proof -
  have "\<exists>c'. py2rpy_cell c = Inr c'" if "r \<in> set (rows t)" "(n, c) \<in> set r" for r n c
  proof -
    from that(1) assms(2) have "column_shape datetime64_ok r" by (simp add: list_all_iff)
    from shape_cell [OF this that(2)] show ?thesis
      by (auto simp: py2rpy_cell_plain dest: py2rpy_cell_datetime64 split: if_splits)
  qed
  from py2rpy_closed [OF assms(1) this] show ?thesis
    by (simp add: r_row_def [abs_def])
qed

lemma as_tsibble_step:
  assumes "kind t \<noteq> Pandas" "wf_table t" "set (''Month'' # K) \<subseteq> set (cols t)"
      and "list_all (column_shape is_yearmonth) (rows t)"
      and "distinct (map (key_index K ''Month'') (rows t))"
  shows "as_tsibble t ''Month'' K =
     Inr (t\<lparr>kind := Tsibble K ''Month'', rows := arrange (row_less K ''Month'') (rows t)\<rparr>)"
proof -
  have "index_valid (map_of r ''Month'')" if "r \<in> set (rows t)" for r
  proof -
    from that assms(4) have "column_shape is_yearmonth r" by (simp add: list_all_iff)
    moreover have "''Month'' \<in> fst ` set r"
      by (rule wf_has_column [OF assms(2) that]) (use assms(3) in simp)
    ultimately obtain c where "map_of r ''Month'' = Some c" "is_yearmonth c"
      using shape_month_some by blast
    then show ?thesis by (cases c) simp_all
  qed
  then have "list_all (\<lambda>r. index_valid (map_of r ''Month'')) (rows t)"
    by (simp add: list_all_iff)
  then show ?thesis
    using assms(1,3,5) by (simp add: as_tsibble_def)
qed

lemma retail_tsibbleD:
  assumes "retail_tsibble ts"
  shows "kind ts = Tsibble [''State'', ''Industry''] ''Month''" "wf_table ts"
    "set [''State'', ''Industry'', ''Month''] \<subseteq> set (cols ts)"
    "list_all (column_shape is_yearmonth) (rows ts)"
    "distinct (map (key_index [''State'', ''Industry''] ''Month'') (rows ts))"
  using assms
  by (simp_all add: retail_tsibble_def retail_like_row_def [abs_def] column_shape_def [abs_def])

lemma datetime64_range_bounds:
  assumes "- 3507 \<le> m" "m \<le> 3507"
  shows "datetime64_range (86400 * month_start_day m)"
  using month_start_day_bounds [OF assms]
  by (simp add: datetime64_range_def int64_range_def)

lemma months_shape:
  assumes "retail_tsibble ts" "months_between lo hi ts" "- 3507 \<le> lo" "hi \<le> 3507"
  shows "list_all (column_shape month_in_range) (rows ts)"
proof -
  have "column_shape month_in_range r" if r: "r \<in> set (rows ts)" for r
  proof -
    from retail_tsibbleD(4) [OF assms(1)] r have s: "column_shape is_yearmonth r"
      by (simp add: list_all_iff)
    have "if n = ''Month'' then month_in_range c else plain c" if p: "(n, c) \<in> set r" for n c
    proof (cases "n = ''Month''")
      case True
      from assms(2) r p True have "month_between lo hi c"
        by (auto simp: months_between_def list_all_iff)
      then obtain m where "c = YearMonth m" "lo \<le> m" "m \<le> hi"
        by (cases c) simp_all
      with assms(3,4) True show ?thesis
        by (simp add: datetime64_range_bounds)
    next
      case False
      with shape_cell [OF s p] show ?thesis by simp
    qed
    then show ?thesis by (auto simp: column_shape_def list_all_iff)
  qed
  then show ?thesis by (simp add: list_all_iff)
qed

lemma map_of_stage_other:
  assumes "column_shape P r" "k \<noteq> ''Month''" "\<And>c. plain c \<Longrightarrow> hk c = c"
  shows "map_of (convert_row hm hk r) k = map_of r k"
proof (cases "map_of r k")
  case None
  then show ?thesis using assms(2) by (simp add: map_of_convert_row)
next
  case (Some c)
  with shape_map_of [OF assms(1) Some] assms(2,3) show ?thesis
    by (simp add: map_of_convert_row)
qed

lemma selected_in_pandas:
  assumes "column_shape is_yearmonth r"
  shows "selected (pandas_row (month_datetime_row r)) = selected r"
  unfolding stage_rows_convert convert_row_compose selected_def
  by (simp add: map_of_stage_other [OF assms])

lemma to_pandas_stages:
  assumes "retail_tsibble ts" "months_between (- 3507) 3507 ts"
  shows "as_data_frame ts = Inr (ts\<lparr>kind := RDataFrame\<rparr>)"
    and "mutate ''Month'' as_datetime (ts\<lparr>kind := RDataFrame\<rparr>) =
           Inr (ts\<lparr>kind := RDataFrame, rows := map month_datetime_row (rows ts)\<rparr>)"
    and "rpy2py (ts\<lparr>kind := RDataFrame, rows := map month_datetime_row (rows ts)\<rparr>) =
           Inr (ts\<lparr>kind := Pandas,
                  rows := map (\<lambda>r. pandas_row (month_datetime_row r)) (rows ts)\<rparr>)"
proof -
  note h = retail_tsibbleD [OF assms(1)]
  have sh: "column_shape month_in_range r" if "r \<in> set (rows ts)" for r
    using months_shape [OF assms] that by (simp add: list_all_iff)
  show "as_data_frame ts = Inr (ts\<lparr>kind := RDataFrame\<rparr>)"
    using h(1) by (simp add: as_data_frame_def)
  have "mutate ''Month'' as_datetime (ts\<lparr>kind := RDataFrame\<rparr>) =
      Inr (ts\<lparr>kind := RDataFrame\<rparr>\<lparr>rows := map month_datetime_row (rows (ts\<lparr>kind := RDataFrame\<rparr>))\<rparr>)"
    by (rule mutate_datetime_step) (use h in \<open>simp_all add: wf_table_def\<close>)
  then show "mutate ''Month'' as_datetime (ts\<lparr>kind := RDataFrame\<rparr>) =
           Inr (ts\<lparr>kind := RDataFrame, rows := map month_datetime_row (rows ts)\<rparr>)"
    by simp
  have "rpy2py (ts\<lparr>kind := RDataFrame, rows := map month_datetime_row (rows ts)\<rparr>) =
      Inr (ts\<lparr>kind := RDataFrame, rows := map month_datetime_row (rows ts)\<rparr>
             \<lparr>kind := Pandas,
              rows := map pandas_row
                (rows (ts\<lparr>kind := RDataFrame, rows := map month_datetime_row (rows ts)\<rparr>))\<rparr>)"
    by (rule rpy2py_step) (use sh in \<open>auto simp: list_all_iff intro: shape_stage_rows\<close>)
  then show "rpy2py (ts\<lparr>kind := RDataFrame, rows := map month_datetime_row (rows ts)\<rparr>) =
           Inr (ts\<lparr>kind := Pandas,
                  rows := map (\<lambda>r. pandas_row (month_datetime_row r)) (rows ts)\<rparr>)"
    by (simp add: comp_def)
qed

lemma filter_stage:
  assumes "retail_tsibble ts"
  shows "filter_states_industries
           (ts\<lparr>kind := Pandas, rows := map (\<lambda>r. pandas_row (month_datetime_row r)) (rows ts)\<rparr>) =
           Inr (ts\<lparr>kind := Pandas,
                  rows := map (\<lambda>r. pandas_row (month_datetime_row r))
                            (filter selected (rows ts))\<rparr>)"
proof -
  note h = retail_tsibbleD [OF assms(1)]
  have sh: "column_shape is_yearmonth r" if "r \<in> set (rows ts)" for r
    using h(4) that by (simp add: list_all_iff)
  let ?pdf = "ts\<lparr>kind := Pandas, rows := map (\<lambda>r. pandas_row (month_datetime_row r)) (rows ts)\<rparr>"
  have wf_pdf: "wf_table ?pdf"
    using h(2) by (auto simp: wf_table_def)
  from filter_states_industries_total [OF wf_pdf] h(3)
  obtain t' where t': "filter_states_industries ?pdf = Inr t'" by auto
  have "filter (\<lambda>r. selected (pandas_row (month_datetime_row r))) (rows ts) =
        filter selected (rows ts)"
    by (rule filter_cong [OF refl]) (simp add: selected_in_pandas sh)
  then have "filter selected (rows ?pdf) =
        map (\<lambda>r. pandas_row (month_datetime_row r)) (filter selected (rows ts))"
    by (simp add: filter_map comp_def)
  with filter_states_industries_rows [OF t'] t' show ?thesis
    by simp
qed

lemma to_tsibble_stages:
  fixes ts :: "('a::linorder, 'd) table"
  assumes "retail_tsibble ts" and mb: "months_between (- 3507) 3507 ts"
      and fs: "set fs \<subseteq> set (rows ts)"
      and d: "distinct (map (key_index [''State'', ''Industry''] ''Month'') fs)"
  shows "py2rpy (ts\<lparr>kind := Pandas, rows := map (\<lambda>r. pandas_row (month_datetime_row r)) fs\<rparr>) =
           Inr (ts\<lparr>kind := RDataFrame,
                  rows := map (\<lambda>r. r_row (pandas_row (month_datetime_row r))) fs\<rparr>)"
    and "mutate ''Month'' yearmonth
           (ts\<lparr>kind := RDataFrame,
                rows := map (\<lambda>r. r_row (pandas_row (month_datetime_row r))) fs\<rparr>) =
           Inr (ts\<lparr>kind := RDataFrame, rows := fs\<rparr>)"
    and "as_tsibble (ts\<lparr>kind := RDataFrame, rows := fs\<rparr>) ''Month'' [''State'', ''Industry''] =
           Inr (ts\<lparr>rows := arrange (row_less [''State'', ''Industry''] ''Month'') fs\<rparr>)"
proof -
  note h = retail_tsibbleD [OF assms(1)]
  have sh: "column_shape month_in_range r" if "r \<in> set (rows ts)" for r
    using months_shape [OF assms(1) mb] that by (simp add: list_all_iff)
  have ym: "column_shape is_yearmonth r" if "r \<in> set (rows ts)" for r
    using h(4) that by (simp add: list_all_iff)
  let ?fpdf = "ts\<lparr>kind := Pandas, rows := map (\<lambda>r. pandas_row (month_datetime_row r)) fs\<rparr>"
  have "py2rpy ?fpdf = Inr (?fpdf\<lparr>kind := RDataFrame, rows := map r_row (rows ?fpdf)\<rparr>)"
    by (rule py2rpy_step) (use sh fs in \<open>auto simp: list_all_iff intro!: shape_stage_rows\<close>)
  then show "py2rpy ?fpdf =
      Inr (ts\<lparr>kind := RDataFrame,
             rows := map (\<lambda>r. r_row (pandas_row (month_datetime_row r))) fs\<rparr>)"
    by (simp add: comp_def)
  let ?rdf = "ts\<lparr>kind := RDataFrame,
                 rows := map (\<lambda>r. r_row (pandas_row (month_datetime_row r))) fs\<rparr>"
  have "mutate ''Month'' yearmonth ?rdf = Inr (?rdf\<lparr>rows := map month_period_row (rows ?rdf)\<rparr>)"
  proof (rule mutate_yearmonth_step)
    show "wf_table ?rdf" using h(2) fs by (auto simp: wf_table_def)
    show "list_all (column_shape is_posixct) (rows ?rdf)"
      using sh fs by (auto simp: list_all_iff intro!: shape_stage_rows)
  qed (use h(3) in simp_all)
  moreover have "map month_period_row (rows ?rdf) = fs"
    using sh fs by (auto simp: comp_def row_round_trip intro!: map_idI)
  ultimately show "mutate ''Month'' yearmonth ?rdf = Inr (ts\<lparr>kind := RDataFrame, rows := fs\<rparr>)"
    by simp
  let ?df = "ts\<lparr>kind := RDataFrame, rows := fs\<rparr>"
  have "as_tsibble ?df ''Month'' [''State'', ''Industry''] =
     Inr (?df\<lparr>kind := Tsibble [''State'', ''Industry''] ''Month'',
            rows := arrange (row_less [''State'', ''Industry''] ''Month'') (rows ?df)\<rparr>)"
  proof (rule as_tsibble_step)
    show "wf_table ?df" using h(2) fs by (auto simp: wf_table_def)
    show "list_all (column_shape is_yearmonth) (rows ?df)"
      using ym fs by (auto simp: list_all_iff)
    show "distinct (map (key_index [''State'', ''Industry''] ''Month'') (rows ?df))"
      using d by simp
  qed (use h(3) in simp_all)
  then show "as_tsibble ?df ''Month'' [''State'', ''Industry''] =
      Inr (ts\<lparr>rows := arrange (row_less [''State'', ''Industry''] ''Month'') fs\<rparr>)"
    using h(1) by simp
qed

lemma length_arrange [simp]: "length (arrange lt rs) = length rs"
  by (metis mset_arrange size_mset)

lemma set_arrange [simp]: "set (arrange lt rs) = set rs"
  by (metis mset_arrange set_mset_mset)

subsection \<open>What each conversion leaves alone\<close>










subsection \<open>What each conversion does to the month\<close>











subsection \<open>Keys and months stay unique\<close>


lemma distinct_arrange:
  "distinct (map f (arrange lt rs)) = distinct (map f rs)"
proof -
  have "mset (map f (arrange lt rs)) = mset (map f rs)"
    by (simp add: mset_arrange)
  then show ?thesis by (rule mset_eq_imp_distinct_iff)
qed

subsection \<open>Forecast rows in closed form\<close>

lemma and_then_Inr: "and_then m f = Inr y \<longleftrightarrow> (\<exists>x. m = Inr x \<and> f x = Inr y)"
  by (cases m) (simp_all add: and_then_def)

lemma traverse_projr:
  "traverse f xs = Inr ys \<Longrightarrow>
     ys = map (\<lambda>x. projr (f x)) xs \<and> (\<forall>x \<in> set xs. f x = Inr (projr (f x)))"
proof (induction xs arbitrary: ys)
  case Nil
  then show ?case by simp
next
  case (Cons x xs)
  from Cons.prems obtain y zs where y: "f x = Inr y" and zs: "traverse f xs = Inr zs"
    and ys: "ys = y # zs"
    by (auto split: sum.splits)
  from Cons.IH [OF zs] y ys show ?case by simp
qed

lemma level_name_95: "level_name 95 = ''95%''"
  by (simp add: level_name_def digits.simps digit_char_def)


lemma traverse_map_map:
  assumes "\<And>x. x \<in> set xs \<Longrightarrow> f (g x) = Inr (h x)"
  shows "traverse f (map g xs) = Inr (map h xs)"
  using assms by (induction xs) simp_all

lemma key_shapeD:
  assumes "key_shape k"
  obtains c1 c2 where "k = [(''State'', c1), (''Industry'', c2)]" "plain c1" "plain c2"
proof -
  from assms have n: "map fst k = [''State'', ''Industry'']" and p: "list_all (\<lambda>p. plain (snd p)) k"
    by (simp_all add: key_shape_def)
  from n obtain p1 p2 where k: "k = [p1, p2]" "fst p1 = ''State''" "fst p2 = ''Industry''"
    by (auto simp: map_eq_Cons_conv)
  then have "k = [(''State'', snd p1), (''Industry'', snd p2)]"
    by (metis prod.collapse)
  moreover have "plain (snd p1)" "plain (snd p2)"
    using p k(1) by simp_all
  ultimately show ?thesis by (rule that)
qed

lemma forecast_row_steps:
  fixes eng :: "('a, 'd) engine"
  assumes "key_shape k"
  shows "hilo_row eng 95 ''Turnover'' (fable_row eng k name m d) =
           Inr (fable_row eng k name m d @
                [(''95%'', Hilo (fst (dist_hilo eng 95 d)) (snd (dist_hilo eng 95 d)))])"
    and "unpack_row ''95%'' (fable_row eng k name m d @
                [(''95%'', Hilo (fst (dist_hilo eng 95 d)) (snd (dist_hilo eng 95 d)))]) =
           Inr (fable_row eng k name m d @
                [(''95%_lower'', Dbl (fst (dist_hilo eng 95 d))),
                 (''95%_upper'', Dbl (snd (dist_hilo eng 95 d)))])"
    and "select_row [''State'', ''Industry'', ''.model'', ''.mean'', ''95%_lower'', ''95%_upper'',
           ''Month'']
           (fable_row eng k name m d @
                [(''95%_lower'', Dbl (fst (dist_hilo eng 95 d))),
                 (''95%_upper'', Dbl (snd (dist_hilo eng 95 d)))]) =
           Inr (forecast_selected_row eng k name m d)"
    and "mutate_row ''Month'' as_datetime (forecast_selected_row eng k name m d) =
           Inr (forecast_datetime_row eng k name m d)"
    and "datetime64_range (86400 * month_start_day m) \<Longrightarrow>
         traverse (convert_field rpy2py_cell) (forecast_datetime_row eng k name m d) =
           Inr (forecast_pdf_row eng k name m d)"
proof -
  from assms obtain c1 c2 where k: "k = [(''State'', c1), (''Industry'', c2)]"
    and p: "plain c1" "plain c2"
    by (rule key_shapeD)
  show "hilo_row eng 95 ''Turnover'' (fable_row eng k name m d) =
           Inr (fable_row eng k name m d @
                [(''95%'', Hilo (fst (dist_hilo eng 95 d)) (snd (dist_hilo eng 95 d)))])"
    by (simp add: hilo_row_def fable_row_def k level_name_95 split: prod.splits)
  show "unpack_row ''95%'' (fable_row eng k name m d @
                [(''95%'', Hilo (fst (dist_hilo eng 95 d)) (snd (dist_hilo eng 95 d)))]) =
           Inr (fable_row eng k name m d @
                [(''95%_lower'', Dbl (fst (dist_hilo eng 95 d))),
                 (''95%_upper'', Dbl (snd (dist_hilo eng 95 d)))])"
    by (simp add: unpack_row_def fable_row_def k)
  show "select_row [''State'', ''Industry'', ''.model'', ''.mean'', ''95%_lower'', ''95%_upper'',
           ''Month'']
           (fable_row eng k name m d @
                [(''95%_lower'', Dbl (fst (dist_hilo eng 95 d))),
                 (''95%_upper'', Dbl (snd (dist_hilo eng 95 d)))]) =
           Inr (forecast_selected_row eng k name m d)"
    by (simp add: select_row_def fable_row_def forecast_selected_row_def k)
  show "mutate_row ''Month'' as_datetime (forecast_selected_row eng k name m d) =
           Inr (forecast_datetime_row eng k name m d)"
    by (simp add: mutate_row_def k and_then_def set_field_def forecast_selected_row_def
        forecast_datetime_row_def)
  show "traverse (convert_field rpy2py_cell) (forecast_datetime_row eng k name m d) =
           Inr (forecast_pdf_row eng k name m d)"
    if "datetime64_range (86400 * month_start_day m)"
    using p that
    by (simp add: k forecast_pdf_row_def forecast_datetime_row_def convert_field_def
        and_then_def rpy2py_cell_plain)
qed

lemma forecast_tail_stages:
  fixes eng :: "('a, 'd) engine" and fb :: "('a, 'd) table"
  assumes kind: "kind fb = Fable [''State'', ''Industry'', ''.model''] ''Month'' ''Turnover''"
      and cols: "cols fb = [''State'', ''Industry'', ''.model'', ''Month'', ''Turnover'', ''.mean'']"
      and rows: "rows fb = map (\<lambda>(k, name, m, d). fable_row eng k name m d) E"
      and keys: "\<And>k name m d. (k, name, m, d) \<in> set E \<Longrightarrow> key_shape k"
      and range: "\<And>k name m d. (k, name, m, d) \<in> set E \<Longrightarrow>
                    datetime64_range (86400 * month_start_day m)"
      and 1: "hilo eng 95 fb = Inr t1"
      and 2: "unpack_hilo t1 ''95%'' = Inr t2"
      and 3: "select t2 [''State'', ''Industry'', ''.model'', ''.mean'', ''95%_lower'', ''95%_upper'']
                = Inr t3"
      and 4: "as_data_frame t3 = Inr t4"
      and 5: "mutate ''Month'' as_datetime t4 = Inr t5"
      and 6: "rpy2py t5 = Inr pdf"
  shows "kind pdf = Pandas"
    and "cols pdf = [''State'', ''Industry'', ''.model'', ''.mean'', ''95%_lower'', ''95%_upper'',
           ''Month'']"
    and "rows pdf = map (\<lambda>(k, name, m, d). forecast_pdf_row eng k name m d) E"
    and "rows t3 = map (\<lambda>(k, name, m, d). forecast_selected_row eng k name m d) E"
    and "rows t4 = map (\<lambda>(k, name, m, d). forecast_selected_row eng k name m d) E"
    and "rows t5 = map (\<lambda>(k, name, m, d). forecast_datetime_row eng k name m d) E"
    and "cols t3 = cols pdf" "cols t4 = cols pdf" "cols t5 = cols pdf"
proof -
  let ?r2 = "\<lambda>(k, name, m, d). fable_row eng k name m d @
                [(''95%'', Hilo (fst (dist_hilo eng 95 d)) (snd (dist_hilo eng 95 d)))]"
  let ?r3 = "\<lambda>(k, name, m, d). fable_row eng k name m d @
                [(''95%_lower'', Dbl (fst (dist_hilo eng 95 d))),
                 (''95%_upper'', Dbl (snd (dist_hilo eng 95 d)))]"
  let ?r4 = "\<lambda>(k, name, m, d). forecast_selected_row eng k name m d"
  let ?r5 = "\<lambda>(k, name, m, d). forecast_datetime_row eng k name m d"
  have r2: "traverse (hilo_row eng 95 ''Turnover'') (rows fb) = Inr (map ?r2 E)"
    unfolding rows
    by (rule traverse_map_map) (auto dest!: keys simp: forecast_row_steps(1))
  have t1: "t1 = fb\<lparr>kind := Tsibble [''State'', ''Industry'', ''.model''] ''Month'',
                   cols := cols fb @ [''95%''], rows := map ?r2 E\<rparr>"
    using 1 by (simp add: hilo_def kind r2 and_then_def level_name_95)
  have r3: "traverse (unpack_row ''95%'') (rows t1) = Inr (map ?r3 E)"
    unfolding t1 by simp (rule traverse_map_map, auto dest!: keys simp: forecast_row_steps(2))
  have t2: "t2 = t1\<lparr>cols := [''State'', ''Industry'', ''.model'', ''Month'', ''Turnover'', ''.mean'',
                             ''95%_lower'', ''95%_upper''],
                   rows := map ?r3 E\<rparr>"
    using 2 r3 by (simp add: unpack_hilo_def and_then_def t1 cols unpack_names_def)
  have r4: "traverse (select_row [''State'', ''Industry'', ''.model'', ''.mean'', ''95%_lower'',
              ''95%_upper'', ''Month'']) (rows t2) = Inr (map ?r4 E)"
    unfolding t2 by simp (rule traverse_map_map, auto dest!: keys simp: forecast_row_steps(3))
  have t3: "kind t3 = Tsibble [''State'', ''Industry'', ''.model''] ''Month''"
    "cols t3 = [''State'', ''Industry'', ''.model'', ''.mean'', ''95%_lower'', ''95%_upper'',
           ''Month'']"
    "rows t3 = map ?r4 E"
    using 3 r4
    by (auto simp: select_def and_then_def t2 t1 kept_names_def kept_kind_def split: if_splits)
  have t4: "t4 = t3\<lparr>kind := RDataFrame\<rparr>"
    using 4 by (auto simp: as_data_frame_def split: if_splits)
  have r5: "traverse (mutate_row ''Month'' as_datetime) (rows t4) = Inr (map ?r5 E)"
    unfolding t4 by (simp add: t3) (rule traverse_map_map, auto dest!: keys simp: forecast_row_steps(4))
  have t5: "t5 = t4\<lparr>rows := map ?r5 E\<rparr>"
    using 5 r5 by (auto simp: mutate_def and_then_def t4 t3 split: if_splits)
  have r6: "traverse (traverse (convert_field rpy2py_cell)) (rows t5) =
      Inr (map (\<lambda>(k, name, m, d). forecast_pdf_row eng k name m d) E)"
    unfolding t5 by simp (rule traverse_map_map, auto intro!: forecast_row_steps(5) keys range)
  have pdf: "pdf = t5\<lparr>kind := Pandas,
      rows := map (\<lambda>(k, name, m, d). forecast_pdf_row eng k name m d) E\<rparr>"
    using 6 r6 by (auto simp: rpy2py_def and_then_def split: if_splits)
  show "kind pdf = Pandas" by (simp add: pdf)
  show c: "cols pdf = [''State'', ''Industry'', ''.model'', ''.mean'', ''95%_lower'', ''95%_upper'',
           ''Month'']"
    by (simp add: pdf t5 t4 t3)
  show "rows pdf = map (\<lambda>(k, name, m, d). forecast_pdf_row eng k name m d) E"
    by (simp add: pdf)
  show "rows t3 = map ?r4 E" by (rule t3(3))
  show "rows t4 = map ?r4 E" by (simp add: t4 t3)
  show "rows t5 = map ?r5 E" by (simp add: t5)
  show "cols t3 = cols pdf" "cols t4 = cols pdf" "cols t5 = cols pdf"
    by (simp_all add: c t3 t4 t5)
qed

subsection \<open>Models and forecasts in closed form\<close>

lemma concat_product:
  "concat (map (\<lambda>x. concat (map (\<lambda>y. map (\<lambda>z. h x y z) zs) ys)) xs) =
   map (\<lambda>(x, y, z). h x y z) (List.product xs (List.product ys zs))"
  by (induction xs) (simp_all add: map_concat comp_def product_concat_map)

lemma key_row_retail:
  assumes "column_shape is_yearmonth r" "''State'' \<in> fst ` set r" "''Industry'' \<in> fst ` set r"
  shows "key_shape (key_row [''State'', ''Industry''] r)"
proof -
  from assms(2) obtain c1 where c1: "map_of r ''State'' = Some c1"
    by (metis map_of_eq_None_iff not_Some_eq)
  from assms(3) obtain c2 where c2: "map_of r ''Industry'' = Some c2"
    by (metis map_of_eq_None_iff not_Some_eq)
  from shape_map_of [OF assms(1) c1] shape_map_of [OF assms(1) c2]
  show ?thesis
    by (simp add: key_row_def c1 c2 key_shape_def)
qed

lemma series_keys_shape:
  assumes "retail_tsibble rts" "k \<in> set (series_keys [''State'', ''Industry''] (rows rts))"
  shows "key_shape k"
proof -
  note h = retail_tsibbleD [OF assms(1)]
  from assms(2) obtain r where r: "r \<in> set (rows rts)" "k = key_row [''State'', ''Industry''] r"
    by (auto simp: series_keys_def)
  have "column_shape is_yearmonth r" using h(4) r(1) by (simp add: list_all_iff)
  moreover have "''State'' \<in> fst ` set r" "''Industry'' \<in> fst ` set r"
    using wf_has_column [OF h(2) r(1)] h(3) by simp_all
  ultimately show ?thesis unfolding r(2) by (rule key_row_retail)
qed

lemma model_closed:
  assumes k: "kind rts = Tsibble [''State'', ''Industry''] ''Month''"
      and mo: "monthly rts"
      and m: "model eng rts python_model_specs = Inr mb"
  shows "mkey mb = [''State'', ''Industry'']" "mindex mb = ''Month''"
    "mresponse mb = ''Turnover''" "minterval mb = 1"
    "mfits mb = map (\<lambda>k. (k, series_rows [''State'', ''Industry''] (rows rts) k,
                 map (\<lambda>s. (spec_name s,
                        projr (fit eng (spec_formula s)
                                 (series_rows [''State'', ''Industry''] (rows rts) k))))
                   python_model_specs))
       (series_keys [''State'', ''Industry''] (rows rts))"
proof -
  let ?K = "[''State'', ''Industry'']"
  let ?G = "\<lambda>k. and_then (fit_series eng python_model_specs (series_rows ?K (rows rts) k))
                      (\<lambda>fs. Inr (k, series_rows ?K (rows rts) k, fs))"
  from m obtain ms fitted where
    ms: "traverse (month_of ''Month'') (rows rts) = Inr ms" and
    fitted: "traverse ?G (series_keys ?K (rows rts)) = Inr fitted" and
    mb: "mb = \<lparr>mkey = ?K, mindex = ''Month'',
                mresponse = (case python_model_specs of [] \<Rightarrow> [] | s # ss \<Rightarrow> spec_response s),
                minterval = interval_of ms, mfits = fitted\<rparr>"
    unfolding model_def k repr.case and_then_Inr by auto
  show "mkey mb = ?K" "mindex mb = ''Month''" by (simp_all add: mb)
  show "mresponse mb = ''Turnover''"
    by (simp add: mb python_model_specs_def spec_response_def spec_formula_def strip_blanks_def)
  show "minterval mb = 1"
    using mo by (simp add: mb monthly_def ms)
  have "projr (?G k) = (k, series_rows ?K (rows rts) k,
                 map (\<lambda>s. (spec_name s,
                        projr (fit eng (spec_formula s) (series_rows ?K (rows rts) k))))
                   python_model_specs)"
    if "k \<in> set (series_keys ?K (rows rts))" for k
  proof -
    let ?rs = "series_rows ?K (rows rts) k"
    let ?H = "\<lambda>s. and_then (fit eng (spec_formula s) ?rs) (\<lambda>m. Inr (spec_name s, m))"
    from traverse_projr [OF fitted] that have "?G k = Inr (projr (?G k))" by blast
    then obtain fs where fs: "fit_series eng python_model_specs ?rs = Inr fs"
      and g: "projr (?G k) = (k, ?rs, fs)"
      by (auto simp: and_then_Inr)
    from fs have t: "traverse ?H python_model_specs = Inr fs"
      by (simp add: fit_series_def)
    have "projr (?H s) = (spec_name s, projr (fit eng (spec_formula s) ?rs))"
      if "s \<in> set python_model_specs" for s
    proof -
      from traverse_projr [OF t] that have "?H s = Inr (projr (?H s))" by blast
      then show ?thesis by (auto simp: and_then_Inr)
    qed
    with traverse_projr [OF t] have "fs = map (\<lambda>s. (spec_name s,
        projr (fit eng (spec_formula s) ?rs))) python_model_specs"
      by simp
    with g show ?thesis by simp
  qed
  with traverse_projr [OF fitted] show "mfits mb = map (\<lambda>k. (k, series_rows ?K (rows rts) k,
                 map (\<lambda>s. (spec_name s,
                        projr (fit eng (spec_formula s) (series_rows ?K (rows rts) k))))
                   python_model_specs))
       (series_keys ?K (rows rts))"
    by (simp add: mb)
qed

lemma last_month_mem:
  "last_month index rs = Inr l \<Longrightarrow> \<exists>r \<in> set rs. month_of index r = Inr l"
proof (induction index rs arbitrary: l rule: last_month.induct)
  case (1 index)
  then show ?case by simp
next
  case (2 index r)
  then show ?case by simp
next
  case (3 index r v va)
  from "3.prems" obtain m n where m: "month_of index r = Inr m"
    and n: "last_month index (v # va) = Inr n" and l: "l = max m n"
    by (auto simp: and_then_Inr)
  from "3.IH" [OF n] obtain r' where "r' \<in> set (v # va)" "month_of index r' = Inr n"
    by blast
  with m l show ?case by (cases "m \<le> n") (auto simp: max_def)
qed

lemma month_of_between:
  assumes "months_between lo hi t" "r \<in> set (rows t)" "month_of ''Month'' r = Inr l"
  shows "lo \<le> l \<and> l \<le> hi"
proof -
  from assms(3) have "map_of r ''Month'' = Some (YearMonth l)"
    by (auto simp: month_of_def split: option.splits cell.splits)
  then have "(''Month'', YearMonth l) \<in> set r" by (rule map_of_SomeD)
  moreover from assms(1,2)
  have "\<forall>p \<in> set r. case p of (n, c) \<Rightarrow> n = ''Month'' \<longrightarrow> month_between lo hi c"
    by (simp add: months_between_def list_all_iff)
  ultimately have "month_between lo hi (YearMonth l)" by fastforce
  then show ?thesis by simp
qed

lemma forecast_closed:
  assumes r: "retail_tsibble rts" and mo: "monthly rts"
      and m: "model eng rts python_model_specs = Inr mb"
      and f: "forecast eng mb (Years 2) = Inr fb"
  shows "kind fb = Fable [''State'', ''Industry'', ''.model''] ''Month'' ''Turnover''"
    and "cols fb = [''State'', ''Industry'', ''.model'', ''Month'', ''Turnover'', ''.mean'']"
    and "rows fb = map (\<lambda>(k, name, m, d). fable_row eng k name m d) (forecast_entries eng rts)"
    and "\<And>k name m d. months_between lo hi rts \<Longrightarrow>
           (k, name, m, d) \<in> set (forecast_entries eng rts) \<Longrightarrow> lo \<le> m \<and> m \<le> hi + 24"
proof -
  let ?K = "[''State'', ''Industry'']"
  note h = retail_tsibbleD [OF r]
  note c = model_closed [OF h(1) mo m]
  have n: "periods_ahead (minterval mb) (Years 2) = 24"
    by (simp add: c(4))
  from f have "and_then (traverse (forecast_series eng mb 24) (mfits mb))
             (\<lambda>rss. Inr \<lparr>kind = Fable (mkey mb @ [''.model'']) (mindex mb) (mresponse mb),
                          cols = mkey mb @ [''.model'', mindex mb, mresponse mb, ''.mean''],
                          rows = concat rss\<rparr>) = Inr fb"
    unfolding forecast_def n by (simp add: c(4))
  then obtain rss where
    rss: "traverse (forecast_series eng mb 24) (mfits mb) = Inr rss" and
    fb: "fb = \<lparr>kind = Fable (mkey mb @ [''.model'']) (mindex mb) (mresponse mb),
                cols = mkey mb @ [''.model'', mindex mb, mresponse mb, ''.mean''],
                rows = concat rss\<rparr>"
    unfolding and_then_Inr by auto
  show "kind fb = Fable [''State'', ''Industry'', ''.model''] ''Month'' ''Turnover''"
    "cols fb = [''State'', ''Industry'', ''.model'', ''Month'', ''Turnover'', ''.mean'']"
    by (simp_all add: fb c)
  let ?rs = "\<lambda>k. series_rows ?K (rows rts) k"
  let ?F = "\<lambda>k s. projr (fit eng (spec_formula s) (?rs k))"
  let ?L = "\<lambda>k. projr (last_month ''Month'' (?rs k))"
  let ?e = "\<lambda>k. (k, ?rs k, map (\<lambda>s. (spec_name s, ?F k s)) python_model_specs)"
  have row: "forecast_row eng mb k name m d = fable_row eng k name m d" for k name m d
    by (simp add: forecast_row_def fable_row_def c)
  have "projr (forecast_series eng mb 24 (?e k)) =
        concat (map (\<lambda>s. map (\<lambda>i. fable_row eng k (spec_name s) (?L k + int i) (?F k s i))
                  [1..<25]) python_model_specs) \<and>
        last_month ''Month'' (?rs k) = Inr (?L k)"
    if "k \<in> set (series_keys ?K (rows rts))" for k
  proof -
    from traverse_projr [OF rss] that
    have "forecast_series eng mb 24 (?e k) = Inr (projr (forecast_series eng mb 24 (?e k)))"
      by (simp add: c(5))
    then obtain l where l: "last_month ''Month'' (?rs k) = Inr l"
      and p: "projr (forecast_series eng mb 24 (?e k)) =
        concat (map (\<lambda>(name, f).
                 map (\<lambda>i. forecast_row eng mb k name (l + int i * minterval mb) (f i))
                   [1..<Suc 24]) (map (\<lambda>s. (spec_name s, ?F k s)) python_model_specs))"
      unfolding forecast_series_def prod.case and_then_Inr c(2) by auto
    show ?thesis
      unfolding p by (simp add: l row c(4) comp_def)
  qed
  note series = this
  with traverse_projr [OF rss]
  have "concat rss = concat (map (\<lambda>k. concat (map (\<lambda>s.
            map (\<lambda>i. fable_row eng k (spec_name s) (?L k + int i) (?F k s i)) [1..<25])
              python_model_specs)) (series_keys ?K (rows rts)))"
    by (simp add: c(5) comp_def cong: map_cong)
  also have "\<dots> = map (\<lambda>(k, name, m, d). fable_row eng k name m d) (forecast_entries eng rts)"
    unfolding concat_product forecast_entries_def
    by (simp add: comp_def case_prod_unfold)
  finally show "rows fb = map (\<lambda>(k, name, m, d). fable_row eng k name m d)
      (forecast_entries eng rts)"
    by (simp add: fb)
  show "lo \<le> m' \<and> m' \<le> hi + 24"
    if b: "months_between lo hi rts" and e: "(k, name, m', d) \<in> set (forecast_entries eng rts)"
    for k name m' d
  proof -
    from e obtain i where k: "k \<in> set (series_keys ?K (rows rts))"
      and i: "1 \<le> i" "i < 25" and m': "m' = ?L k + int i"
      by (auto simp: forecast_entries_def)
    from series [OF k] have "last_month ''Month'' (?rs k) = Inr (?L k)" by simp
    from last_month_mem [OF this] obtain r0 where "r0 \<in> set (?rs k)"
      "month_of ''Month'' r0 = Inr (?L k)" by blast
    then have "lo \<le> ?L k \<and> ?L k \<le> hi"
      by (intro month_of_between [OF b]) (auto simp: series_rows_def)
    with i m' show ?thesis by simp
  qed
qed

lemma forecast_entries_keys:
  assumes "retail_tsibble rts" "(k, name, m, d) \<in> set (forecast_entries eng rts)"
  shows "key_shape k"
  using assms(2) series_keys_shape [OF assms(1)]
  by (auto simp: forecast_entries_def)

lemma forecast_cells_stages:
  assumes r: "retail_tsibble rts" and mo: "monthly rts"
      and b: "months_between (- 3507) 3483 rts"
      and m: "model eng rts python_model_specs = Inr mb"
      and f: "forecast eng mb (Years 2) = Inr fb"
      and 1: "hilo eng 95 fb = Inr t1"
      and 2: "unpack_hilo t1 ''95%'' = Inr t2"
      and 3: "select t2 [''State'', ''Industry'', ''.model'', ''.mean'', ''95%_lower'', ''95%_upper'']
                = Inr t3"
      and 4: "as_data_frame t3 = Inr t4"
      and 5: "mutate ''Month'' as_datetime t4 = Inr t5"
      and 6: "rpy2py t5 = Inr pdf"
  shows "kind pdf = Pandas"
    and "cols pdf = [''State'', ''Industry'', ''.model'', ''.mean'', ''95%_lower'', ''95%_upper'',
           ''Month'']"
    and "rows pdf = map (\<lambda>(k, name, m, d). forecast_pdf_row eng k name m d)
           (forecast_entries eng rts)"
    and "rows t3 = map (\<lambda>(k, name, m, d). forecast_selected_row eng k name m d)
           (forecast_entries eng rts)"
    and "rows t4 = map (\<lambda>(k, name, m, d). forecast_selected_row eng k name m d)
           (forecast_entries eng rts)"
    and "rows t5 = map (\<lambda>(k, name, m, d). forecast_datetime_row eng k name m d)
           (forecast_entries eng rts)"
    and "cols t3 = cols pdf" "cols t4 = cols pdf" "cols t5 = cols pdf"
proof -
  note c = forecast_closed [OF r mo m f]
  note k = forecast_entries_keys [OF r]
  have g: "datetime64_range (86400 * month_start_day m')"
    if "(k, name, m', d) \<in> set (forecast_entries eng rts)" for k name m' d
    using c(4) [OF b that] by (intro datetime64_range_bounds) simp_all
  note s = forecast_tail_stages [OF c(1-3) k g 1 2 3 4 5 6]
  show "kind pdf = Pandas" by (rule s(1))
  show "cols pdf = [''State'', ''Industry'', ''.model'', ''.mean'', ''95%_lower'', ''95%_upper'',
           ''Month'']" by (rule s(2))
  show "rows pdf = map (\<lambda>(k, name, m, d). forecast_pdf_row eng k name m d)
           (forecast_entries eng rts)" by (rule s(3))
  show "rows t3 = map (\<lambda>(k, name, m, d). forecast_selected_row eng k name m d)
           (forecast_entries eng rts)" by (rule s(4))
  show "rows t4 = map (\<lambda>(k, name, m, d). forecast_selected_row eng k name m d)
           (forecast_entries eng rts)" by (rule s(5))
  show "rows t5 = map (\<lambda>(k, name, m, d). forecast_datetime_row eng k name m d)
           (forecast_entries eng rts)" by (rule s(6))
  show "cols t3 = cols pdf" by (rule s(7))
  show "cols t4 = cols pdf" by (rule s(8))
  show "cols t5 = cols pdf" by (rule s(9))
qed

lemma forecast_cells_closed:
  assumes r: "retail_tsibble rts" and mo: "monthly rts"
      and b: "months_between (- 3507) 3483 rts"
      and run: "forecast_cells eng rts = Inr pdf"
  shows "kind pdf = Pandas"
    and "cols pdf = [''State'', ''Industry'', ''.model'', ''.mean'', ''95%_lower'', ''95%_upper'',
           ''Month'']"
    and "rows pdf = map (\<lambda>(k, name, m, d). forecast_pdf_row eng k name m d)
           (forecast_entries eng rts)"
proof -
  from run obtain mb fb t1 t2 t3 t4 t5 where
    m: "model eng rts python_model_specs = Inr mb" and
    f: "forecast eng mb (Years 2) = Inr fb" and
    1: "hilo eng 95 fb = Inr t1" and
    2: "unpack_hilo t1 ''95%'' = Inr t2" and
    3: "select t2 [''State'', ''Industry'', ''.model'', ''.mean'', ''95%_lower'', ''95%_upper'']
          = Inr t3" and
    4: "as_data_frame t3 = Inr t4" and
    5: "mutate ''Month'' as_datetime t4 = Inr t5" and
    6: "rpy2py t5 = Inr pdf"
    unfolding forecast_cells_def and_then_Inr by blast
  note s = forecast_cells_stages [OF r mo b m f 1 2 3 4 5 6]
  show "kind pdf = Pandas"
    "cols pdf = [''State'', ''Industry'', ''.model'', ''.mean'', ''95%_lower'', ''95%_upper'',
           ''Month'']"
    "rows pdf = map (\<lambda>(k, name, m, d). forecast_pdf_row eng k name m d)
           (forecast_entries eng rts)"
    by (rule s)+
qed

subsection \<open>The rows of the forecast table\<close>

lemma months_between_rows:
  assumes "months_between lo hi t" "set rs \<subseteq> set (rows t)"
  shows "months_between lo hi (t\<lparr>rows := rs\<rparr>)"
  using assms by (auto simp: months_between_def list_all_iff)

lemma python_rts_closed:
  fixes a :: "('a::linorder, 'd) table"
  assumes "retail_tsibble a" and mb: "months_between (- 3507) 3507 a"
  shows "python_rts a =
     Inr (a\<lparr>rows := arrange (row_less [''State'', ''Industry''] ''Month'')
                      (filter selected (rows a))\<rparr>)"
    and "retail_tsibble (a\<lparr>rows := arrange (row_less [''State'', ''Industry''] ''Month'')
                      (filter selected (rows a))\<rparr>)"
proof -
  note h = retail_tsibbleD [OF assms(1)]
  let ?fs = "filter selected (rows a)"
  have fs: "set ?fs \<subseteq> set (rows a)" by auto
  have d: "distinct (map (key_index [''State'', ''Industry''] ''Month'') ?fs)"
    using h(5) by (simp add: distinct_map_filter)
  note p = to_pandas_stages [OF assms]
  note f = filter_stage [OF assms(1)]
  note b = to_tsibble_stages [OF assms fs d]
  have 1: "to_pandas a =
      Inr (a\<lparr>kind := Pandas, rows := map (\<lambda>r. pandas_row (month_datetime_row r)) (rows a)\<rparr>)"
    unfolding to_pandas_def and_then_def p(1) sum.case p(2) p(3) ..
  have 2: "to_tsibble
      (a\<lparr>kind := Pandas, rows := map (\<lambda>r. pandas_row (month_datetime_row r)) ?fs\<rparr>) =
      Inr (a\<lparr>rows := arrange (row_less [''State'', ''Industry''] ''Month'') ?fs\<rparr>)"
    unfolding to_tsibble_def and_then_def b(1) sum.case b(2) b(3) ..
  show "python_rts a =
     Inr (a\<lparr>rows := arrange (row_less [''State'', ''Industry''] ''Month'') ?fs\<rparr>)"
    unfolding python_rts_def 1 and_then_def sum.case f 2 ..
  show "retail_tsibble (a\<lparr>rows := arrange (row_less [''State'', ''Industry''] ''Month'') ?fs\<rparr>)"
    using assms(1) d
    by (auto simp: retail_tsibble_def wf_table_def list_all_iff distinct_arrange)
qed

lemma forecast_row_fields:
  assumes "key_shape k"
  shows "key_row [''State'', ''Industry''] (forecast_pdf_row eng k name m d) = k \<and>
         map_of (forecast_pdf_row eng k name m d) ''.model'' = Some (Chr name) \<and>
         map_of (forecast_pdf_row eng k name m d) ''Month'' =
           Some (Datetime64 (86400 * month_start_day m * 1000000000)) \<and>
         map_of (forecast_pdf_row eng k name m d) ''State'' = map_of k ''State'' \<and>
         map_of (forecast_pdf_row eng k name m d) ''Industry'' = map_of k ''Industry''"
    and "key_row [''State'', ''Industry''] (forecast_selected_row eng k name m d) = k \<and>
         map_of (forecast_selected_row eng k name m d) ''.model'' = Some (Chr name) \<and>
         map_of (forecast_selected_row eng k name m d) ''Month'' = Some (YearMonth m) \<and>
         map_of (forecast_selected_row eng k name m d) ''State'' = map_of k ''State'' \<and>
         map_of (forecast_selected_row eng k name m d) ''Industry'' = map_of k ''Industry''"
    and "key_row [''State'', ''Industry''] (forecast_datetime_row eng k name m d) = k \<and>
         map_of (forecast_datetime_row eng k name m d) ''.model'' = Some (Chr name) \<and>
         map_of (forecast_datetime_row eng k name m d) ''Month'' =
           Some (POSIXct (86400 * month_start_day m)) \<and>
         map_of (forecast_datetime_row eng k name m d) ''State'' = map_of k ''State'' \<and>
         map_of (forecast_datetime_row eng k name m d) ''Industry'' = map_of k ''Industry''"
proof -
  from assms obtain c1 c2 where k: "k = [(''State'', c1), (''Industry'', c2)]"
    by (rule key_shapeD)
  show "key_row [''State'', ''Industry''] (forecast_pdf_row eng k name m d) = k \<and>
         map_of (forecast_pdf_row eng k name m d) ''.model'' = Some (Chr name) \<and>
         map_of (forecast_pdf_row eng k name m d) ''Month'' =
           Some (Datetime64 (86400 * month_start_day m * 1000000000)) \<and>
         map_of (forecast_pdf_row eng k name m d) ''State'' = map_of k ''State'' \<and>
         map_of (forecast_pdf_row eng k name m d) ''Industry'' = map_of k ''Industry''"
    by (simp add: k forecast_pdf_row_def key_row_def)
  show "key_row [''State'', ''Industry''] (forecast_selected_row eng k name m d) = k \<and>
         map_of (forecast_selected_row eng k name m d) ''.model'' = Some (Chr name) \<and>
         map_of (forecast_selected_row eng k name m d) ''Month'' = Some (YearMonth m) \<and>
         map_of (forecast_selected_row eng k name m d) ''State'' = map_of k ''State'' \<and>
         map_of (forecast_selected_row eng k name m d) ''Industry'' = map_of k ''Industry''"
    by (simp add: k forecast_selected_row_def key_row_def)
  show "key_row [''State'', ''Industry''] (forecast_datetime_row eng k name m d) = k \<and>
         map_of (forecast_datetime_row eng k name m d) ''.model'' = Some (Chr name) \<and>
         map_of (forecast_datetime_row eng k name m d) ''Month'' =
           Some (POSIXct (86400 * month_start_day m)) \<and>
         map_of (forecast_datetime_row eng k name m d) ''State'' = map_of k ''State'' \<and>
         map_of (forecast_datetime_row eng k name m d) ''Industry'' = map_of k ''Industry''"
    by (simp add: k forecast_datetime_row_def key_row_def)
qed

lemma key_shape_eq:
  assumes "key_shape k" "key_shape k'"
      and "map_of k ''State'' = map_of k' ''State''" "map_of k ''Industry'' = map_of k' ''Industry''"
  shows "k = k'"
proof -
  from assms(1) obtain c1 c2 where k: "k = [(''State'', c1), (''Industry'', c2)]"
    by (rule key_shapeD)
  from assms(2) obtain d1 d2 where k': "k' = [(''State'', d1), (''Industry'', d2)]"
    by (rule key_shapeD)
  from assms(3,4) show ?thesis by (simp add: k k')
qed

lemma month_start_day_inj: "month_start_day m = month_start_day n \<Longrightarrow> m = n"
  by (metis month_of_day_month_start_day)

lemma python_specs_distinct:
  "distinct python_model_specs" "inj_on spec_name (set python_model_specs)"
  by (simp_all add: python_model_specs_def spec_name_def strip_blanks_def)

lemma filter_product_fst:
  assumes "distinct xs" "a \<in> set xs"
  shows "filter (\<lambda>(x, y). x = a \<and> Q y) (List.product xs ys) = map (Pair a) (filter Q ys)"
  using assms
proof (induction xs)
  case Nil
  then show ?case by simp
next
  case (Cons x xs)
  have none: "filter (\<lambda>(x, y). x = a \<and> Q y) (List.product zs ys) = []" if "a \<notin> set zs" for zs
    using that by (induction zs) (auto simp: filter_map comp_def)
  show ?case
  proof (cases "x = a")
    case True
    with Cons.prems have "a \<notin> set xs" by simp
    with True show ?thesis
      by (simp add: filter_map comp_def none)
  next
    case False
    with Cons show ?thesis
      by (simp add: filter_map comp_def)
  qed
qed

lemma forecast_rows_properties:
  fixes eng :: "('a, 'd) engine"
    and row :: "('a, 'd) row \<Rightarrow> string \<Rightarrow> int \<Rightarrow> 'd \<Rightarrow> ('a, 'd) row"
    and stamp :: "int \<Rightarrow> ('a, 'd) cell"
  assumes r: "retail_tsibble rts"
      and rows: "rs = map (\<lambda>(k, name, m, d). row k name m d) (forecast_entries eng rts)"
      and fields: "\<And>k name m d. key_shape k \<Longrightarrow>
          key_row [''State'', ''Industry''] (row k name m d) = k \<and>
          map_of (row k name m d) ''.model'' = Some (Chr name) \<and>
          map_of (row k name m d) ''Month'' = Some (stamp m) \<and>
          map_of (row k name m d) ''State'' = map_of k ''State'' \<and>
          map_of (row k name m d) ''Industry'' = map_of k ''Industry''"
      and inj: "\<And>m n. stamp m = stamp n \<Longrightarrow> m = n"
  shows "distinct (map combination rs)"
    and "\<And>k s. k \<in> set (series_keys [''State'', ''Industry''] (rows rts)) \<Longrightarrow>
           s \<in> set python_model_specs \<Longrightarrow>
           length (filter (\<lambda>r. key_row [''State'', ''Industry''] r = k \<and>
                              map_of r ''.model'' = Some (Chr (spec_name s))) rs) = 24"
    and "\<And>r. r \<in> set rs \<Longrightarrow>
           key_row [''State'', ''Industry''] r \<in> set (series_keys [''State'', ''Industry''] (rows rts)) \<and>
           (\<exists>s \<in> set python_model_specs. map_of r ''.model'' = Some (Chr (spec_name s)))"
proof -
  let ?K = "[''State'', ''Industry'']"
  let ?keys = "series_keys ?K (rows rts)"
  let ?P = "List.product ?keys (List.product python_model_specs [1..<25])"
  let ?L = "\<lambda>k. projr (last_month ''Month'' (series_rows ?K (rows rts) k))"
  let ?F = "\<lambda>k s. projr (fit eng (spec_formula s) (series_rows ?K (rows rts) k))"
  let ?g = "\<lambda>(k, s, i). row k (spec_name s) (?L k + int i) (?F k s i)"
  have rs: "rs = map ?g ?P"
    unfolding rows forecast_entries_def by (simp add: comp_def case_prod_unfold)
  have ks: "key_shape k" if "k \<in> set ?keys" for k
    using that by (rule series_keys_shape [OF r])
  have dk: "distinct ?keys" by (simp add: series_keys_def)
  have dP: "distinct ?P"
    by (intro distinct_product dk python_specs_distinct(1)) simp
  have "inj_on (\<lambda>p. combination (?g p)) (set ?P)"
  proof (rule inj_onI)
    fix p q assume p: "p \<in> set ?P" and q: "q \<in> set ?P"
      and e: "combination (?g p) = combination (?g q)"
    obtain k s i where pp: "p = (k, s, i)" by (cases p)
    obtain k' s' i' where qq: "q = (k', s', i')" by (cases q)
    from p q pp qq have m: "k \<in> set ?keys" "k' \<in> set ?keys"
      "s \<in> set python_model_specs" "s' \<in> set python_model_specs" by auto
    note f = fields [OF ks [OF m(1)]]
    note f' = fields [OF ks [OF m(2)]]
    from e have "map_of k ''State'' = map_of k' ''State''" "map_of k ''Industry'' = map_of k' ''Industry''"
      and n: "spec_name s = spec_name s'"
      and mm: "stamp (?L k + int i) = stamp (?L k' + int i')"
      unfolding pp qq by (simp_all add: combination_def f f')
    then have k: "k = k'" by (intro key_shape_eq ks m)
    from n m(3,4) python_specs_distinct(2) have s: "s = s'" by (auto dest: inj_onD)
    from inj [OF mm] k have "i = i'" by simp
    with k s show "p = q" by (simp add: pp qq)
  qed
  with dP show "distinct (map combination rs)"
    by (simp add: rs distinct_map comp_def)
  show "length (filter (\<lambda>r. key_row ?K r = k \<and> map_of r ''.model'' = Some (Chr (spec_name s))) rs) = 24"
    if k: "k \<in> set ?keys" and s: "s \<in> set python_model_specs" for k s
  proof -
    have "filter (\<lambda>p. key_row ?K (?g p) = k \<and> map_of (?g p) ''.model'' = Some (Chr (spec_name s))) ?P
        = filter (\<lambda>(k', q). k' = k \<and> (case q of (s', i) \<Rightarrow> s' = s \<and> True)) ?P"
    proof (rule filter_cong [OF refl])
      fix p assume p: "p \<in> set ?P"
      obtain k' s' i where pp: "p = (k', s', i)" by (cases p)
      from p pp have m: "k' \<in> set ?keys" "s' \<in> set python_model_specs" by auto
      note f = fields [OF ks [OF m(1)]]
      have "spec_name s' = spec_name s \<longleftrightarrow> s' = s"
        using m(2) s python_specs_distinct(2) by (auto dest: inj_onD)
      then show "(key_row ?K (?g p) = k \<and> map_of (?g p) ''.model'' = Some (Chr (spec_name s))) =
          (case p of (k', q) \<Rightarrow> k' = k \<and> (case q of (s', i) \<Rightarrow> s' = s \<and> True))"
        by (simp add: pp f)
    qed
    also have "\<dots> = map (Pair k) (filter (\<lambda>(s', i). s' = s \<and> True)
                          (List.product python_model_specs [1..<25]))"
      by (rule filter_product_fst [OF dk k])
    also have "filter (\<lambda>(s', i). s' = s \<and> True) (List.product python_model_specs [1..<25]) =
        map (Pair s) (filter (\<lambda>i. True) [1..<25])"
      by (rule filter_product_fst [OF python_specs_distinct(1) s])
    finally show ?thesis
      by (simp add: rs filter_map comp_def)
  qed
  show "key_row ?K x \<in> set ?keys \<and>
        (\<exists>s \<in> set python_model_specs. map_of x ''.model'' = Some (Chr (spec_name s)))"
    if "x \<in> set rs" for x
  proof -
    from that obtain k s i where x: "x = ?g (k, s, i)" and m: "k \<in> set ?keys"
      "s \<in> set python_model_specs"
      unfolding rs by auto
    note f = fields [OF ks [OF m(1)]]
    from m show ?thesis by (auto simp: x f)
  qed
qed

lemma stamp_inj:
  "Datetime64 (86400 * month_start_day m * 1000000000) =
     (Datetime64 (86400 * month_start_day n * 1000000000) :: ('a, 'd) cell) \<Longrightarrow> m = n"
  "POSIXct (86400 * month_start_day m) = (POSIXct (86400 * month_start_day n) :: ('a, 'd) cell)
     \<Longrightarrow> m = n"
  by (auto dest: month_start_day_inj)

section \<open>The native filter and the specifications\<close>





section \<open>The pipeline on the small table\<close>

lemma months_between_mono:
  assumes "months_between lo hi t" "lo' \<le> lo" "hi \<le> hi'"
  shows "months_between lo' hi' t"
proof -
  have "month_between lo' hi' c" if "month_between lo hi c" for c :: "('a, 'b) cell"
    using that assms(2,3) by (cases c) auto
  with assms(1) show ?thesis
    by (fastforce simp: months_between_def list_all_iff)
qed

lemma small_retail_shape:
  "retail_tsibble small_retail" "months_between (- 3507) 3483 small_retail"
  "monthly small_retail" "python_rts small_retail = Inr small_retail"
  by code_simp+

lemma small_pipeline: "python_pipeline toy_engine small_retail = Inr small_forecast"
  by code_simp

section \<open>The filter property\<close>

text \<open>
  Claim C3. On a well-formed pandas table with the columns State and Industry the
  filter of lines 83 to 85 returns a table. Every row of the result has State equal to
  "New South Wales" or "Victoria" and Industry equal to "Department stores"; every row
  of the input with such fields is a row of the result, as many times as it occurs in
  the input; nothing but rows is changed.
\<close>

theorem filter_keeps_exactly_the_selected_rows:
  assumes "wf_table t" "''State'' \<in> set (cols t)" "''Industry'' \<in> set (cols t)"
  shows "\<exists>t'. filter_states_industries t = Inr t' \<and>
           (\<forall>r \<in> set (rows t').
              (map_of r ''State'' = Some (Chr ''New South Wales'') \<or>
               map_of r ''State'' = Some (Chr ''Victoria'')) \<and>
              map_of r ''Industry'' = Some (Chr ''Department stores'')) \<and>
           (\<forall>r \<in> set (rows t). selected r \<longrightarrow>
              r \<in> set (rows t') \<and> count_list (rows t') r = count_list (rows t) r) \<and>
           cols t' = cols t \<and> kind t' = kind t"
proof -
  from filter_states_industries_total [OF assms] obtain t' where
    t': "filter_states_industries t = Inr t'" by blast
  have eq: "t' = t\<lparr>rows := filter selected (rows t)\<rparr>"
    by (rule filter_states_industries_rows [OF t'])
  have cnt: "count_list (filter selected rs) r = count_list rs r"
    if "selected r" for r and rs :: "('a, 'b) row list"
    using that by (induction rs) auto
  have "\<forall>r \<in> set (rows t'). selected r"
    by (simp add: eq)
  moreover have "\<forall>r \<in> set (rows t). selected r \<longrightarrow>
      r \<in> set (rows t') \<and> count_list (rows t') r = count_list (rows t) r"
    by (simp add: eq cnt)
  ultimately show ?thesis
    using t' by (auto simp: selected_def eq)
qed

theorem filter_keeps_exactly_the_selected_rows_witness:
  "wf_table sample_retail \<and> ''State'' \<in> set (cols sample_retail) \<and>
   ''Industry'' \<in> set (cols sample_retail) \<and>
   (\<exists>t'. filter_states_industries sample_retail = Inr t' \<and>
      (\<forall>r \<in> set (rows t').
         (map_of r ''State'' = Some (Chr ''New South Wales'') \<or>
          map_of r ''State'' = Some (Chr ''Victoria'')) \<and>
         map_of r ''Industry'' = Some (Chr ''Department stores'')) \<and>
      (\<forall>r \<in> set (rows sample_retail). selected r \<longrightarrow>
         r \<in> set (rows t') \<and> count_list (rows t') r = count_list (rows sample_retail) r) \<and>
      cols t' = cols sample_retail \<and> kind t' = kind sample_retail)"
proof -
  have h1: "wf_table sample_retail"
    by (simp add: wf_table_def sample_retail_def retail_row_def)
  have h2: "''State'' \<in> set (cols sample_retail)"
    by (simp add: sample_retail_def)
  have h3: "''Industry'' \<in> set (cols sample_retail)"
    by (simp add: sample_retail_def)
  from h1 h2 h3 filter_keeps_exactly_the_selected_rows [OF h1 h2 h3]
  show ?thesis by blast
qed

section \<open>The conversion round trip\<close>



section \<open>What the conversions change\<close>



section \<open>Key and month identify a row\<close>



section \<open>The forecast table\<close>

text \<open>
  The forecast table has not six columns but seven: \<^verbatim>\<open>select\<close> on a tsibble (line 127)
  keeps the index, which line 129 then reads, so \<^verbatim>\<open>Month\<close> stands after the six
  columns that are named.
\<close>

theorem forecast_table_has_seven_columns:
  "map_sum id cols (python_pipeline toy_engine small_retail) =
     Inr [''State'', ''Industry'', ''.model'', ''.mean'', ''95%_lower'', ''95%_upper'', ''Month''] \<and>
   map_sum id (\<lambda>t. length (cols t)) (python_pipeline toy_engine small_retail) = Inr 7"
  by (simp add: small_pipeline small_forecast_def)

text \<open>
  Claim C2. When the notebook runs to its end on a dataset of the shape of the retail
  data whose filtered tsibble \<^verbatim>\<open>rts\<close> is monthly and whose months lie between October
  1677 and April 2260 (so that the forecast months are instants that
  \<^verbatim>\<open>datetime64[ns]\<close> holds), \<^verbatim>\<open>forecast_pdf\<close> is a pandas frame with the seven
  columns State, Industry, .model, .mean, 95%_lower, 95%_upper and Month; no two rows
  have the same State, Industry, model and Month; for every series of \<^verbatim>\<open>rts\<close> and
  every one of the three models there are exactly 24 rows; and every row belongs to a
  series of \<^verbatim>\<open>rts\<close> and to one of the three models.
\<close>

theorem forecast_table_schema:
  fixes eng :: "('a::linorder, 'd) engine"
  assumes "retail_tsibble aus_retail"
      and "months_between (- 3507) 3483 aus_retail"
      and "python_rts aus_retail = Inr rts"
      and "monthly rts"
      and "python_pipeline eng aus_retail = Inr forecast_pdf"
  shows "kind forecast_pdf = Pandas \<and>
     cols forecast_pdf =
       [''State'', ''Industry'', ''.model'', ''.mean'', ''95%_lower'', ''95%_upper'', ''Month''] \<and>
     distinct (map combination (rows forecast_pdf)) \<and>
     (\<forall>k \<in> set (series_keys [''State'', ''Industry''] (rows rts)).
        \<forall>s \<in> set python_model_specs.
          length (filter (\<lambda>r. key_row [''State'', ''Industry''] r = k \<and>
                             map_of r ''.model'' = Some (Chr (spec_name s)))
                    (rows forecast_pdf)) = 24) \<and>
     (\<forall>r \<in> set (rows forecast_pdf).
        key_row [''State'', ''Industry''] r \<in> set (series_keys [''State'', ''Industry''] (rows rts)) \<and>
        (\<exists>s \<in> set python_model_specs. map_of r ''.model'' = Some (Chr (spec_name s))))"
proof -
  have w: "months_between (- 3507) 3507 aus_retail"
    by (rule months_between_mono [OF assms(2)]) simp_all
  note c = python_rts_closed [OF assms(1) w]
  from c assms(3) have r: "retail_tsibble rts" by simp
  from c(1) assms(3)
  have e: "rts = aus_retail\<lparr>rows := arrange (row_less [''State'', ''Industry''] ''Month'')
                      (filter selected (rows aus_retail))\<rparr>"
    by simp
  have b: "months_between (- 3507) 3483 rts"
    unfolding e by (rule months_between_rows [OF assms(2)]) (simp add: set_arrange)
  from assms(3,5) have run: "forecast_cells eng rts = Inr forecast_pdf"
    by (simp add: python_pipeline_def and_then_def)
  note f = forecast_cells_closed [OF r assms(4) b run]
  note p = forecast_rows_properties [OF r f(3) forecast_row_fields(1) stamp_inj(1)]
  from f(1,2) p show ?thesis by blast
qed

theorem forecast_table_schema_witness:
  "retail_tsibble small_retail \<and> months_between (- 3507) 3483 small_retail \<and>
   python_rts small_retail = Inr small_retail \<and> monthly small_retail \<and>
   python_pipeline toy_engine small_retail = Inr small_forecast \<and>
   series_keys [''State'', ''Industry''] (rows small_retail) =
     [[(''State'', Chr ''Victoria''), (''Industry'', Chr ''Department stores'')]] \<and>
   kind small_forecast = Pandas \<and>
   cols small_forecast =
     [''State'', ''Industry'', ''.model'', ''.mean'', ''95%_lower'', ''95%_upper'', ''Month''] \<and>
   distinct (map combination (rows small_forecast)) \<and>
   length (filter (\<lambda>r. key_row [''State'', ''Industry''] r =
                          [(''State'', Chr ''Victoria''), (''Industry'', Chr ''Department stores'')] \<and>
                        map_of r ''.model'' = Some (Chr ''arima''))
             (rows small_forecast)) = 24 \<and>
   length (rows small_forecast) = 72"
proof -
  note t = forecast_table_schema
    [OF small_retail_shape(1,2,4,3) small_pipeline]
  have k: "series_keys [''State'', ''Industry''] (rows small_retail) =
     [[(''State'', Chr ''Victoria''), (''Industry'', Chr ''Department stores'')]]"
    by code_simp
  have s: "''arima = ARIMA(log(Turnover))'' \<in> set python_model_specs"
    "spec_name ''arima = ARIMA(log(Turnover))'' = ''arima''"
    by code_simp+
  have n: "length (rows small_forecast) = 72"
    by (simp add: small_forecast_def)
  from t have "length (filter (\<lambda>r. key_row [''State'', ''Industry''] r =
                          [(''State'', Chr ''Victoria''), (''Industry'', Chr ''Department stores'')] \<and>
                        map_of r ''.model'' = Some (Chr (spec_name ''arima = ARIMA(log(Turnover))'')))
             (rows small_forecast)) = 24"
    unfolding k using s(1) by simp
  with t k n small_retail_shape small_pipeline show ?thesis
    unfolding s(2) by simp
qed
section \<open>The Python cells fit what the R cell fits\<close>



end
